theory Spec2Isabelle
  imports Main "HOL-Library.AList" "HOL-Library.Multiset"
begin

section \<open>Data model\<close>

text \<open>
  The room phases of \<^verbatim>\<open>room-state.interface.ts\<close>: \<^verbatim>\<open>'lobby' | 'waiting-ready' |
  'selection' | 'revealing' | 'game-over' | 'waiting-restart'\<close>.
\<close>

datatype RoomState = Lobby | WaitingReady | Selection | Revealing | GameOver | WaitingRestart

text \<open>The three outcome categories of \<^verbatim>\<open>round-result.interface.ts\<close>.\<close>

datatype RoundResultType = Perfect | TooLow | TooHigh

text \<open>
  \<^verbatim>\<open>player.interface.ts\<close>. The field \<^verbatim>\<open>id\<close> is called \<open>idP\<close> here, since
  \<open>id\<close> is the identity function of HOL. Scores and heights are the integers that
  \<^verbatim>\<open>parseInt\<close> and the validated \<^verbatim>\<open>SelectHeightDto\<close> produce; \<^verbatim>\<open>number | null\<close> is an
  \<open>int option\<close>.
\<close>

record Player =
  idP :: string
  socketId :: string
  name :: string
  isReady :: bool
  isHost :: bool
  score :: int
  currentHeight :: "int option"
  isConnected :: bool

text \<open>
  A deadline handle as \<^verbatim>\<open>setTimeout\<close> returns it: the callback it will run (with the room
  code it closes over) and the delay in milliseconds. A handle is an object, so it is always
  truthy; \<^verbatim>\<open>NodeJS.Timeout | null\<close> is a \<open>Timeout option\<close>.
\<close>

datatype Callback = EndSelectionPeriodCb string | EndRoundCb string

datatype Timeout = Timeout Callback int

text \<open>
  \<^verbatim>\<open>room.interface.ts\<close>. \<^verbatim>\<open>players\<close> is a JavaScript \<^verbatim>\<open>Map\<close>, which iterates in
  insertion order: an association list, new keys appended. \<^verbatim>\<open>restartConsents\<close> is a
  \<^verbatim>\<open>Set\<close>: a list without duplicates. \<^verbatim>\<open>createdAt\<close> is never read and is left out.
\<close>

record Room =
  code :: string
  players :: "(string \<times> Player) list"
  state :: RoomState
  currentRound :: int
  maxRounds :: int
  selectionTimer :: "Timeout option"
  revealTimer :: "Timeout option"
  selectionDuration :: int
  revealDuration :: int
  currentWallHole :: "int option"
  restartConsents :: "string list"

text \<open>\<^verbatim>\<open>round-result.interface.ts\<close> and \<^verbatim>\<open>player-score.interface.ts\<close>.\<close>

record RoundResult =
  rr_playerId :: string
  rr_playerName :: string
  selectedHeight :: int
  wallHole :: int
  pointsEarned :: int
  totalScore :: int
  result :: RoundResultType

record PlayerScore =
  playerId :: string
  playerName :: string
  ps_score :: int
  rank :: int
  isWinner :: bool

text \<open>
  The values that \<^verbatim>\<open>config/game.config.ts\<close> registers under \<^verbatim>\<open>'game'\<close>, as far as the
  game logic can read them. \<^verbatim>\<open>ConfigService.get(key, default)\<close> returns the registered
  value, which the configuration file always defines.
\<close>

record GameConfig =
  cfg_selectionDuration :: int
  cfg_revealDuration :: int
  cfg_maxRounds :: int
  maxRooms :: int
  maxPlayersPerRoom :: int
  scoring_perfect :: int
  scoring_tooLow :: int
  scoring_tooHigh :: int

text \<open>The configuration when no environment variable is set.\<close>

definition defaultConfig :: GameConfig where
  "defaultConfig = \<lparr> cfg_selectionDuration = 15, cfg_revealDuration = 5, cfg_maxRounds = 10,
     maxRooms = 100, maxPlayersPerRoom = 10,
     scoring_perfect = 20, scoring_tooLow = -5, scoring_tooHigh = -10 \<rparr>"

section \<open>Score calculator\<close>

text \<open>\<^verbatim>\<open>ScoreCalculatorService.calculatePoints\<close>.\<close>

definition calculatePoints :: "GameConfig \<Rightarrow> int \<Rightarrow> int \<Rightarrow> int" where
  "calculatePoints cfg selHeight hole =
     (if selHeight = hole then scoring_perfect cfg
      else if selHeight < hole then scoring_tooLow cfg
      else scoring_tooHigh cfg)"

text \<open>\<^verbatim>\<open>ScoreCalculatorService.getResultType\<close>.\<close>

definition getResultType :: "int \<Rightarrow> int \<Rightarrow> RoundResultType" where
  "getResultType selHeight hole =
     (if selHeight = hole then Perfect
      else if selHeight < hole then TooLow
      else TooHigh)"

section \<open>Notifications and the server state\<close>

text \<open>
  What the gateway sends: the event name and its payload, to one connection
  (\<^verbatim>\<open>client.emit\<close>) or to every connection of a room (\<^verbatim>\<open>server.to(roomCode).emit\<close>).
  A player is listed as (id, name, isReady, isHost, score, isConnected), a round score as
  (playerId, playerName, score).
\<close>

type_synonym PlayerView = "string \<times> string \<times> bool \<times> bool \<times> int \<times> bool"

type_synonym ScoreView = "string \<times> string \<times> int"

datatype Payload =
    Message string
  | RoomCreated string string
  | RoomJoined string string
  | RoomStateData string RoomState int int "PlayerView list"
  | PlayerListUpdated "PlayerView list"
  | PlayerLeft string string
  | PlayerDisconnected string string
  | NameSet string string
  | GameStarted int
  | RoundStarted int int
  | HeightSelected int
  | WallRevealed int "RoundResult list"
  | RoundEnded "ScoreView list"
  | GameEnded "PlayerScore list"
  | RestartStatus nat nat
  | NoData

datatype Emit = ToClient string string Payload | ToRoom string string Payload

text \<open>
  The mutable state of the three injected singletons: \<^verbatim>\<open>RoomService.rooms\<close>,
  \<^verbatim>\<open>RoomService.playerRoomMap\<close>, \<^verbatim>\<open>GameGateway.socketPlayerMap\<close>, and the
  notifications sent so far. The registries are only looked up by key, never iterated.
\<close>

record World =
  rooms :: "string \<rightharpoonup> Room"
  playerRoomMap :: "string \<rightharpoonup> string"
  socketPlayerMap :: "string \<rightharpoonup> string"
  emitted :: "Emit list"

definition emptyWorld :: World where
  "emptyWorld = \<lparr> rooms = Map.empty, playerRoomMap = Map.empty,
     socketPlayerMap = Map.empty, emitted = [] \<rparr>"

definition emit :: "Emit \<Rightarrow> World \<Rightarrow> World" where
  "emit e w = w\<lparr>emitted := emitted w @ [e]\<rparr>"

text \<open>
  A room is an object held by the registry and mutated in place; here the mutated room is
  written back under the key it was read from.
\<close>

definition storeRoom :: "string \<Rightarrow> Room \<Rightarrow> World \<Rightarrow> World" where
  "storeRoom roomCode room w = w\<lparr>rooms := (rooms w)(roomCode \<mapsto> room)\<rparr>"

text \<open>
  \<^verbatim>\<open>const id = map.get(key); if (!id) ...\<close>: the test also rejects the empty string.
\<close>

definition lookupId :: "(string \<rightharpoonup> string) \<Rightarrow> string \<Rightarrow> string option" where
  "lookupId m k = (case m k of None \<Rightarrow> None | Some v \<Rightarrow> if v = [] then None else Some v)"

text \<open>\<^verbatim>\<open>room.players.forEach((player) => { ... })\<close> with a body that mutates the player.\<close>

definition forEachPlayer :: "(Player \<Rightarrow> Player) \<Rightarrow> (string \<times> Player) list \<Rightarrow> (string \<times> Player) list" where
  "forEachPlayer f ps = map (\<lambda>(k, p). (k, f p)) ps"

text \<open>\<^verbatim>\<open>Set.add\<close>.\<close>

definition setAdd :: "string \<Rightarrow> string list \<Rightarrow> string list" where
  "setAdd x xs = (if x \<in> set xs then xs else xs @ [x])"

definition playerViews :: "Room \<Rightarrow> PlayerView list" where
  "playerViews room =
     map (\<lambda>(k, p). (idP p, name p, isReady p, isHost p, score p, isConnected p)) (players room)"

section \<open>Room service\<close>

text \<open>\<^verbatim>\<open>RoomService.getRoom\<close> and \<^verbatim>\<open>RoomService.getRoomByPlayerId\<close>.\<close>

definition getRoom :: "World \<Rightarrow> string \<Rightarrow> Room option" where
  "getRoom w roomCode = rooms w roomCode"

definition getRoomByPlayerId :: "World \<Rightarrow> string \<Rightarrow> Room option" where
  "getRoomByPlayerId w pid =
     (case lookupId (playerRoomMap w) pid of None \<Rightarrow> None | Some roomCode \<Rightarrow> rooms w roomCode)"

text \<open>
  \<^verbatim>\<open>RoomService.createRoom\<close>. The \<^verbatim>\<open>do ... while\<close> loop draws codes until one is not in
  use; \<open>draws\<close> are the successive results of \<^verbatim>\<open>generateRoomCode()\<close>, and the function
  returns \<open>None\<close> when none of them is free (the loop has not ended on these draws).
\<close>

definition newRoom :: "GameConfig \<Rightarrow> string \<Rightarrow> Room" where
  "newRoom cfg roomCode = \<lparr> code = roomCode, players = [], state = Lobby, currentRound = 0,
     maxRounds = cfg_maxRounds cfg, selectionTimer = None, revealTimer = None,
     selectionDuration = cfg_selectionDuration cfg, revealDuration = cfg_revealDuration cfg,
     currentWallHole = None, restartConsents = [] \<rparr>"

definition createRoom :: "GameConfig \<Rightarrow> string list \<Rightarrow> World \<Rightarrow> (string \<times> World) option" where
  "createRoom cfg draws w =
     (case dropWhile (\<lambda>c. rooms w c \<noteq> None) draws of
        [] \<Rightarrow> None
      | roomCode # _ \<Rightarrow> Some (roomCode, storeRoom roomCode (newRoom cfg roomCode) w))"

text \<open>\<^verbatim>\<open>RoomService.joinRoom\<close>. \<^verbatim>\<open>Map.set\<close> replaces an existing key in place.\<close>

definition newPlayer :: "string \<Rightarrow> string \<Rightarrow> bool \<Rightarrow> Player" where
  "newPlayer pid sid host = \<lparr> idP = pid, socketId = sid, name = [], isReady = False,
     isHost = host, score = 0, currentHeight = None, isConnected = True \<rparr>"

definition joinRoom :: "string \<Rightarrow> string \<Rightarrow> string \<Rightarrow> World \<Rightarrow> bool \<times> World" where
  "joinRoom roomCode pid sid w =
     (case rooms w roomCode of
        None \<Rightarrow> (False, w)
      | Some room \<Rightarrow>
          let host = (length (players room) = 0);
              player = newPlayer pid sid host;
              w1 = storeRoom roomCode (room\<lparr>players := AList.update pid player (players room)\<rparr>) w
          in (True, w1\<lparr>playerRoomMap := (playerRoomMap w1)(pid \<mapsto> roomCode)\<rparr>))"

text \<open>
  \<^verbatim>\<open>RoomService.deleteRoom\<close>. The deadlines of the removed room are cancelled; the
  room object leaves the registry.
\<close>

definition deleteRoom :: "string \<Rightarrow> World \<Rightarrow> World" where
  "deleteRoom roomCode w =
     (case rooms w roomCode of
        None \<Rightarrow> w
      | Some room \<Rightarrow>
          w\<lparr>playerRoomMap := fold (\<lambda>(k, p) m. m(idP p := None)) (players room) (playerRoomMap w),
            rooms := (rooms w)(roomCode := None)\<rparr>)"

section \<open>Notifications of the gateway\<close>

definition emitToRoom :: "string \<Rightarrow> string \<Rightarrow> Payload \<Rightarrow> World \<Rightarrow> World" where
  "emitToRoom roomCode event payload w = emit (ToRoom roomCode event payload) w"

definition emitRoomState :: "string \<Rightarrow> string \<Rightarrow> World \<Rightarrow> World" where
  "emitRoomState client roomCode w =
     (case getRoom w roomCode of
        None \<Rightarrow> w
      | Some room \<Rightarrow>
          emit (ToClient client ''room-state''
            (RoomStateData (code room) (state room) (currentRound room) (maxRounds room)
               (playerViews room))) w)"

definition emitPlayerListUpdate :: "string \<Rightarrow> World \<Rightarrow> World" where
  "emitPlayerListUpdate roomCode w =
     (case getRoom w roomCode of
        None \<Rightarrow> w
      | Some room \<Rightarrow> emitToRoom roomCode ''player-list-updated'' (PlayerListUpdated (playerViews room)) w)"

definition emitRoundStarted :: "string \<Rightarrow> World \<Rightarrow> World" where
  "emitRoundStarted roomCode w =
     (case getRoom w roomCode of
        None \<Rightarrow> w
      | Some room \<Rightarrow>
          emitToRoom roomCode ''round-started''
            (RoundStarted (currentRound room) (selectionDuration room)) w)"

definition emitSelectionLocked :: "string \<Rightarrow> World \<Rightarrow> World" where
  "emitSelectionLocked roomCode w = emitToRoom roomCode ''selection-locked'' NoData w"

definition emitWallRevealed :: "string \<Rightarrow> int \<Rightarrow> RoundResult list \<Rightarrow> World \<Rightarrow> World" where
  "emitWallRevealed roomCode holePosition results w =
     emitToRoom roomCode ''wall-revealed'' (WallRevealed holePosition results) w"

definition emitRoundEnded :: "string \<Rightarrow> ScoreView list \<Rightarrow> World \<Rightarrow> World" where
  "emitRoundEnded roomCode scores w = emitToRoom roomCode ''round-ended'' (RoundEnded scores) w"

definition emitGameEnded :: "string \<Rightarrow> PlayerScore list \<Rightarrow> World \<Rightarrow> World" where
  "emitGameEnded roomCode finalScores w =
     emitToRoom roomCode ''game-ended'' (GameEnded finalScores) w"

section \<open>Game service\<close>

text \<open>
  Every method of \<^verbatim>\<open>GameService\<close> looks its room up by code and returns at once when the
  room is not registered. \<^verbatim>\<open>this.gateway\<close> is set by the gateway's constructor, so every
  \<^verbatim>\<open>if (this.gateway)\<close> holds. The two blocks
  \<^verbatim>\<open>if (room.xTimer) { clearTimeout(room.xTimer); room.xTimer = null; }\<close> leave the handle
  \<open>None\<close> whether it was armed or not.
\<close>

definition defaultHeight :: int where
  "defaultHeight = 5"

text \<open>\<^verbatim>\<open>GameService.startRound\<close>.\<close>

definition startRound :: "string \<Rightarrow> World \<Rightarrow> World" where
  "startRound roomCode w =
     (case getRoom w roomCode of
        None \<Rightarrow> w
      | Some room \<Rightarrow>
          let room1 = room\<lparr>selectionTimer := None, revealTimer := None,
                players := forEachPlayer (\<lambda>p. p\<lparr>currentHeight := None\<rparr>) (players room),
                currentWallHole := None, state := Selection\<rparr>;
              w1 = emitRoundStarted roomCode (storeRoom roomCode room1 w);
              room2 = room1\<lparr>selectionTimer :=
                Some (Timeout (EndSelectionPeriodCb roomCode) (selectionDuration room1 * 1000))\<rparr>
          in storeRoom roomCode room2 w1)"

text \<open>\<^verbatim>\<open>GameService.startGame\<close>.\<close>

definition startGame :: "string \<Rightarrow> World \<Rightarrow> World" where
  "startGame roomCode w =
     (case getRoom w roomCode of
        None \<Rightarrow> w
      | Some room \<Rightarrow>
          startRound roomCode (storeRoom roomCode (room\<lparr>state := Selection, currentRound := 1\<rparr>) w))"

text \<open>\<^verbatim>\<open>GameService.submitHeight\<close>.\<close>

definition submitHeight :: "string \<Rightarrow> string \<Rightarrow> int \<Rightarrow> World \<Rightarrow> World" where
  "submitHeight roomCode pid height w =
     (case getRoom w roomCode of
        None \<Rightarrow> w
      | Some room \<Rightarrow>
          if state room \<noteq> Selection then w
          else (case map_of (players room) pid of
                  None \<Rightarrow> w
                | Some player \<Rightarrow>
                    storeRoom roomCode
                      (room\<lparr>players := AList.map_entry pid (\<lambda>p. p\<lparr>currentHeight := Some height\<rparr>)
                                         (players room)\<rparr>) w))"

text \<open>
  \<^verbatim>\<open>GameService.calculateResults\<close>: every player of the roster is scored, on its stored
  guess or on the default when it has none (\<^verbatim>\<open>player.currentHeight ?? defaultHeight\<close>).
\<close>

definition selectedHeightOf :: "Player \<Rightarrow> int" where
  "selectedHeightOf p = (case currentHeight p of None \<Rightarrow> defaultHeight | Some h \<Rightarrow> h)"

definition addPoints :: "GameConfig \<Rightarrow> int \<Rightarrow> Player \<Rightarrow> Player" where
  "addPoints cfg hole p = p\<lparr>score := score p + calculatePoints cfg (selectedHeightOf p) hole\<rparr>"

text \<open>The result pushed for a player, read after its score has been updated.\<close>

definition roundResultOf :: "GameConfig \<Rightarrow> int \<Rightarrow> Player \<Rightarrow> RoundResult" where
  "roundResultOf cfg hole p =
     \<lparr> rr_playerId = idP p, rr_playerName = name p, selectedHeight = selectedHeightOf p,
       wallHole = hole, pointsEarned = calculatePoints cfg (selectedHeightOf p) hole,
       totalScore = score p, result = getResultType (selectedHeightOf p) hole \<rparr>"

definition calculateResults :: "GameConfig \<Rightarrow> string \<Rightarrow> World \<Rightarrow> RoundResult list \<times> World" where
  "calculateResults cfg roomCode w =
     (case getRoom w roomCode of
        None \<Rightarrow> ([], w)
      | Some room \<Rightarrow>
          (case currentWallHole room of
             None \<Rightarrow> ([], w)
           | Some hole \<Rightarrow>
               let ps = forEachPlayer (addPoints cfg hole) (players room)
               in (map (\<lambda>(k, p). roundResultOf cfg hole p) ps,
                   storeRoom roomCode (room\<lparr>players := ps\<rparr>) w)))"

text \<open>
  \<^verbatim>\<open>GameService.endSelectionPeriod\<close>. \<open>drawn\<close> is the value of
  \<^verbatim>\<open>Math.floor(Math.random() * 10) + 1\<close>. The room is read again after
  \<^verbatim>\<open>calculateResults\<close> has updated it; it is the same object in the source.
\<close>

definition assignDefault :: "Player \<Rightarrow> Player" where
  "assignDefault p =
     (if isConnected p \<and> currentHeight p = None then p\<lparr>currentHeight := Some defaultHeight\<rparr> else p)"

definition endSelectionPeriod :: "GameConfig \<Rightarrow> string \<Rightarrow> int \<Rightarrow> World \<Rightarrow> World" where
  "endSelectionPeriod cfg roomCode drawn w =
     (case getRoom w roomCode of
        None \<Rightarrow> w
      | Some room \<Rightarrow>
          if state room \<noteq> Selection then w
          else
            let room1 = room\<lparr>selectionTimer := None,
                  players := forEachPlayer assignDefault (players room),
                  currentWallHole := Some drawn\<rparr>;
                w1 = emitSelectionLocked roomCode (storeRoom roomCode room1 w);
                w2 = storeRoom roomCode (room1\<lparr>state := Revealing\<rparr>) w1;
                (results, w3) = calculateResults cfg roomCode w2;
                w4 = emitWallRevealed roomCode drawn results w3
            in (case getRoom w4 roomCode of
                  None \<Rightarrow> w4
                | Some room4 \<Rightarrow>
                    storeRoom roomCode
                      (room4\<lparr>revealTimer :=
                         Some (Timeout (EndRoundCb roomCode) (revealDuration room4 * 1000))\<rparr>) w4))"

text \<open>
  \<^verbatim>\<open>GameService.endGame\<close>. \<^verbatim>\<open>scores.sort((a, b) => b.score - a.score)\<close> is a stable sort
  into descending score, which is the stable sort by the negated score.
\<close>

definition initialScore :: "Player \<Rightarrow> PlayerScore" where
  "initialScore p = \<lparr> playerId = idP p, playerName = name p, ps_score = score p,
     rank = 0, isWinner = False \<rparr>"

definition rankScores :: "PlayerScore list \<Rightarrow> PlayerScore list" where
  "rankScores scores =
     (let sorted = sort_key (\<lambda>s. - ps_score s) scores;
          highestScore = (case sorted of [] \<Rightarrow> 0 | s # _ \<Rightarrow> ps_score s)
      in map (\<lambda>(index, s). s\<lparr>rank := int index + 1, isWinner := (ps_score s = highestScore)\<rparr>)
           (enumerate 0 sorted))"

definition endGame :: "string \<Rightarrow> World \<Rightarrow> PlayerScore list \<times> World" where
  "endGame roomCode w =
     (case getRoom w roomCode of
        None \<Rightarrow> ([], w)
      | Some room \<Rightarrow>
          let room1 = room\<lparr>state := GameOver, selectionTimer := None, revealTimer := None\<rparr>;
              scores = rankScores (map (\<lambda>(k, p). initialScore p) (players room1))
          in (scores, emitGameEnded roomCode scores (storeRoom roomCode room1 w)))"

text \<open>\<^verbatim>\<open>GameService.endRound\<close>.\<close>

definition endRound :: "string \<Rightarrow> World \<Rightarrow> World" where
  "endRound roomCode w =
     (case getRoom w roomCode of
        None \<Rightarrow> w
      | Some room \<Rightarrow>
          if state room \<noteq> Revealing then w
          else
            let room1 = room\<lparr>revealTimer := None\<rparr>;
                scores = map (\<lambda>(k, p). (idP p, name p, score p)) (players room1);
                w1 = emitRoundEnded roomCode scores (storeRoom roomCode room1 w)
            in if currentRound room1 \<ge> maxRounds room1 then snd (endGame roomCode w1)
               else startRound roomCode
                      (storeRoom roomCode (room1\<lparr>currentRound := currentRound room1 + 1\<rparr>) w1))"

text \<open>
  \<^verbatim>\<open>GameService.checkAllPlayersReady\<close> and \<^verbatim>\<open>GameService.checkAllRestartConsents\<close>: the
  \<^verbatim>\<open>for\<close> loop returns false at the first connected player that fails the test.
\<close>

definition checkAllPlayersReady :: "string \<Rightarrow> World \<Rightarrow> bool" where
  "checkAllPlayersReady roomCode w =
     (case getRoom w roomCode of
        None \<Rightarrow> False
      | Some room \<Rightarrow>
          if length (players room) = 0 then False
          else \<not> list_ex (\<lambda>(k, p). isConnected p \<and> \<not> isReady p) (players room))"

definition checkAllRestartConsents :: "string \<Rightarrow> World \<Rightarrow> bool" where
  "checkAllRestartConsents roomCode w =
     (case getRoom w roomCode of
        None \<Rightarrow> False
      | Some room \<Rightarrow>
          if length (players room) = 0 then False
          else \<not> list_ex (\<lambda>(k, p). isConnected p \<and> idP p \<notin> set (restartConsents room))
                  (players room))"

text \<open>\<^verbatim>\<open>GameService.restartGame\<close>.\<close>

definition restartGame :: "string \<Rightarrow> World \<Rightarrow> World" where
  "restartGame roomCode w =
     (case getRoom w roomCode of
        None \<Rightarrow> w
      | Some room \<Rightarrow>
          storeRoom roomCode
            (room\<lparr>players := forEachPlayer (\<lambda>p. p\<lparr>score := 0, currentHeight := None, isReady := False\<rparr>)
                               (players room),
                  currentRound := 0, currentWallHole := None, restartConsents := [],
                  state := WaitingReady\<rparr>) w)"

text \<open>\<^verbatim>\<open>GameService.handleRestartConsent\<close>.\<close>

definition handleRestartConsent :: "string \<Rightarrow> string \<Rightarrow> World \<Rightarrow> World" where
  "handleRestartConsent roomCode pid w =
     (case getRoom w roomCode of
        None \<Rightarrow> w
      | Some room \<Rightarrow>
          if state room \<noteq> GameOver then w
          else
            let w1 = storeRoom roomCode
                       (room\<lparr>restartConsents := setAdd pid (restartConsents room)\<rparr>) w
            in if checkAllRestartConsents roomCode w1 then restartGame roomCode w1 else w1)"

section \<open>Gateway\<close>

text \<open>
  The handlers of \<^verbatim>\<open>GameGateway\<close>. \<open>client\<close> is \<^verbatim>\<open>client.id\<close>; the player id of a
  new player is the value of \<^verbatim>\<open>uuidv4()\<close>. A handler reads its room through the registry
  and passes \<^verbatim>\<open>room.code\<close> on; the room it mutates is the one registered under that code.
\<close>

definition roomError :: "string \<Rightarrow> string \<Rightarrow> World \<Rightarrow> World" where
  "roomError client msg w = emit (ToClient client ''room-error'' (Message msg)) w"

text \<open>\<^verbatim>\<open>String.prototype.trim\<close> on the one-byte characters a validated name holds.\<close>

definition isWhiteSpace :: "char \<Rightarrow> bool" where
  "isWhiteSpace c = (c \<in> set [CHR 0x09, CHR 0x0A, CHR 0x0B, CHR 0x0C, CHR 0x0D, CHR 0x20, CHR 0xA0])"

definition trim :: "string \<Rightarrow> string" where
  "trim s = rev (dropWhile isWhiteSpace (rev (dropWhile isWhiteSpace s)))"

text \<open>\<^verbatim>\<open>GameGateway.handleCreateRoom\<close>; \<open>None\<close> when \<open>createRoom\<close> finds no free code.\<close>

definition handleCreateRoom :: "GameConfig \<Rightarrow> string \<Rightarrow> string \<Rightarrow> string list \<Rightarrow> World \<Rightarrow> World option" where
  "handleCreateRoom cfg client pid draws w =
     (case createRoom cfg draws w of
        None \<Rightarrow> None
      | Some (roomCode, w1) \<Rightarrow>
          let (joined, w2) = joinRoom roomCode pid client w1
          in if \<not> joined then Some (roomError client ''Error al crear la sala'' w2)
             else
               let w3 = w2\<lparr>socketPlayerMap := (socketPlayerMap w2)(client \<mapsto> pid)\<rparr>;
                   w4 = emit (ToClient client ''room-created'' (RoomCreated roomCode pid)) w3
               in Some (emitRoomState client roomCode w4))"

text \<open>\<^verbatim>\<open>GameGateway.handleJoinRoom\<close>.\<close>

definition handleJoinRoom :: "string \<Rightarrow> string \<Rightarrow> string \<Rightarrow> World \<Rightarrow> World" where
  "handleJoinRoom roomCode client pid w =
     (case getRoom w roomCode of
        None \<Rightarrow> roomError client ''La sala no existe'' w
      | Some room \<Rightarrow>
          let (joined, w1) = joinRoom roomCode pid client w
          in if \<not> joined then roomError client ''No se pudo unir a la sala'' w1
             else
               let w2 = w1\<lparr>socketPlayerMap := (socketPlayerMap w1)(client \<mapsto> pid)\<rparr>;
                   w3 = emit (ToClient client ''room-joined'' (RoomJoined roomCode pid)) w2;
                   w4 = emitRoomState client roomCode w3
               in emitPlayerListUpdate roomCode w4)"

text \<open>\<^verbatim>\<open>GameGateway.handleSetPlayerName\<close>.\<close>

definition handleSetPlayerName :: "string \<Rightarrow> string \<Rightarrow> World \<Rightarrow> World" where
  "handleSetPlayerName nm client w =
     (case lookupId (socketPlayerMap w) client of
        None \<Rightarrow> roomError client ''Jugador no encontrado'' w
      | Some pid \<Rightarrow>
          (case getRoomByPlayerId w pid of
             None \<Rightarrow> roomError client ''Sala no encontrada'' w
           | Some room \<Rightarrow>
               (case map_of (players room) pid of
                  None \<Rightarrow> roomError client ''Jugador no encontrado en la sala'' w
                | Some player \<Rightarrow>
                    if list_ex (\<lambda>(k, p). name p = nm \<and> idP p \<noteq> pid) (players room)
                    then roomError client (''Este nombre ya est'' @ [CHR 0xE1] @ '' en uso'') w
                    else
                      let room1 = room\<lparr>players := AList.map_entry pid (\<lambda>p. p\<lparr>name := nm\<rparr>)
                                                      (players room)\<rparr>;
                          w1 = emitPlayerListUpdate (code room) (storeRoom (code room) room1 w)
                      in emit (ToClient client ''name-set'' (NameSet pid nm)) w1)))"

text \<open>\<^verbatim>\<open>GameGateway.handlePlayerReady\<close>.\<close>

definition handlePlayerReady :: "string \<Rightarrow> World \<Rightarrow> World" where
  "handlePlayerReady client w =
     (case lookupId (socketPlayerMap w) client of
        None \<Rightarrow> roomError client ''Jugador no encontrado'' w
      | Some pid \<Rightarrow>
          (case getRoomByPlayerId w pid of
             None \<Rightarrow> roomError client ''Sala no encontrada'' w
           | Some room \<Rightarrow>
               (case map_of (players room) pid of
                  None \<Rightarrow> roomError client ''Jugador no encontrado en la sala'' w
                | Some player \<Rightarrow>
                    if name player = [] \<or> trim (name player) = []
                    then roomError client ''Debes establecer un nombre antes de estar listo'' w
                    else
                      let room1 = room\<lparr>players := AList.map_entry pid (\<lambda>p. p\<lparr>isReady := True\<rparr>)
                                                      (players room)\<rparr>;
                          room2 = (if state room1 = Lobby then room1\<lparr>state := WaitingReady\<rparr>
                                   else room1);
                          w1 = emitPlayerListUpdate (code room) (storeRoom (code room) room2 w)
                      in if checkAllPlayersReady (code room) w1
                         then
                           let w2 = startGame (code room) w1;
                               w3 = emitToRoom (code room) ''game-started''
                                      (GameStarted (maxRounds room)) w2
                           in emitRoundStarted (code room) w3
                         else w1)))"

text \<open>\<^verbatim>\<open>GameGateway.handleSelectHeight\<close>.\<close>

definition handleSelectHeight :: "int \<Rightarrow> string \<Rightarrow> World \<Rightarrow> World" where
  "handleSelectHeight height client w =
     (case lookupId (socketPlayerMap w) client of
        None \<Rightarrow> roomError client ''Jugador no encontrado'' w
      | Some pid \<Rightarrow>
          (case getRoomByPlayerId w pid of
             None \<Rightarrow> roomError client ''Sala no encontrada'' w
           | Some room \<Rightarrow>
               if state room \<noteq> Selection
               then roomError client ''No es momento de seleccionar altura'' w
               else
                 let w1 = submitHeight (code room) pid height w
                 in emit (ToClient client ''height-selected'' (HeightSelected height)) w1))"

text \<open>
  \<^verbatim>\<open>GameGateway.handleRestartConsent\<close>, named apart from the method of the game service
  that it calls.
\<close>

definition handleRestartConsentGw :: "string \<Rightarrow> World \<Rightarrow> World" where
  "handleRestartConsentGw client w =
     (case lookupId (socketPlayerMap w) client of
        None \<Rightarrow> roomError client ''Jugador no encontrado'' w
      | Some pid \<Rightarrow>
          (case getRoomByPlayerId w pid of
             None \<Rightarrow> roomError client ''Sala no encontrada'' w
           | Some room \<Rightarrow>
               if state room \<noteq> GameOver
               then roomError client ''El juego no ha terminado'' w
               else
                 let w1 = handleRestartConsent (code room) pid w
                 in (case getRoomByPlayerId w1 pid of
                       None \<Rightarrow> w1
                     | Some updatedRoom \<Rightarrow>
                         let consentsCount = length (restartConsents updatedRoom);
                             totalPlayers = length (filter (\<lambda>(k, p). isConnected p)
                                                      (players updatedRoom));
                             w2 = emitToRoom (code updatedRoom) ''restart-status''
                                    (RestartStatus consentsCount totalPlayers) w1
                         in if state updatedRoom = WaitingReady
                            then emitPlayerListUpdate (code updatedRoom)
                                   (emitToRoom (code updatedRoom) ''game-restarted'' NoData w2)
                            else w2)))"

text \<open>\<^verbatim>\<open>GameGateway.handleDisconnect\<close>.\<close>

definition forgetSocket :: "string \<Rightarrow> World \<Rightarrow> World" where
  "forgetSocket client w = w\<lparr>socketPlayerMap := (socketPlayerMap w)(client := None)\<rparr>"

definition promoteFirst :: "(string \<times> Player) list \<Rightarrow> (string \<times> Player) list" where
  "promoteFirst ps = (case ps of [] \<Rightarrow> [] | (k, newHost) # rest \<Rightarrow> (k, newHost\<lparr>isHost := True\<rparr>) # rest)"

definition handleDisconnect :: "string \<Rightarrow> World \<Rightarrow> World" where
  "handleDisconnect client w =
     (case lookupId (socketPlayerMap w) client of
        None \<Rightarrow> w
      | Some pid \<Rightarrow>
          (case getRoomByPlayerId w pid of
             None \<Rightarrow> forgetSocket client w
           | Some room \<Rightarrow>
               (case map_of (players room) pid of
                  None \<Rightarrow> forgetSocket client w
                | Some player \<Rightarrow>
                    if state room = Lobby \<or> state room = WaitingReady
                    then
                      let ps1 = AList.delete pid (players room);
                          ps2 = (if isHost player \<and> length ps1 > 0 then promoteFirst ps1 else ps1);
                          w1 = storeRoom (code room) (room\<lparr>players := ps2\<rparr>) w;
                          w2 = emitToRoom (code room) ''player-left''
                                 (PlayerLeft (idP player) (name player)) w1;
                          w3 = emitPlayerListUpdate (code room) w2;
                          w4 = (if length ps2 = 0 then deleteRoom (code room) w3 else w3)
                      in forgetSocket client w4
                    else
                      let ps1 = AList.map_entry pid (\<lambda>p. p\<lparr>isConnected := False\<rparr>) (players room);
                          w1 = storeRoom (code room) (room\<lparr>players := ps1\<rparr>) w;
                          w2 = emitToRoom (code room) ''player-disconnected''
                                 (PlayerDisconnected (idP player) (name player)) w1;
                          w3 = emitPlayerListUpdate (code room) w2;
                          allDisconnected = list_all (\<lambda>(k, p). \<not> isConnected p) ps1;
                          w4 = (if allDisconnected then deleteRoom (code room) w3 else w3)
                      in forgetSocket client w4)))"

section \<open>Reachable server states\<close>

text \<open>
  The server starts with empty registries. A state changes when a handler of the gateway
  runs on an inbound message or a disconnect, or when an armed deadline of a registered
  room fires and runs its callback. The arguments of a message are not restricted to what
  the validation pipe lets through, and a new player id is any string: this can only add
  states. The target drawn at a selection deadline is an integer from 1 to 10.
\<close>

inductive reachable :: "GameConfig \<Rightarrow> World \<Rightarrow> bool" for cfg :: GameConfig where
  start: "reachable cfg emptyWorld"
| create: "reachable cfg w \<Longrightarrow> handleCreateRoom cfg client pid draws w = Some w'
           \<Longrightarrow> reachable cfg w'"
| join: "reachable cfg w \<Longrightarrow> reachable cfg (handleJoinRoom roomCode client pid w)"
| set_name: "reachable cfg w \<Longrightarrow> reachable cfg (handleSetPlayerName nm client w)"
| ready: "reachable cfg w \<Longrightarrow> reachable cfg (handlePlayerReady client w)"
| select: "reachable cfg w \<Longrightarrow> reachable cfg (handleSelectHeight height client w)"
| consent: "reachable cfg w \<Longrightarrow> reachable cfg (handleRestartConsentGw client w)"
| disconnect: "reachable cfg w \<Longrightarrow> reachable cfg (handleDisconnect client w)"
| selection_deadline:
    "reachable cfg w \<Longrightarrow> rooms w c = Some room
     \<Longrightarrow> selectionTimer room = Some (Timeout (EndSelectionPeriodCb roomCode) delay)
     \<Longrightarrow> 1 \<le> drawn \<Longrightarrow> drawn \<le> 10
     \<Longrightarrow> reachable cfg (endSelectionPeriod cfg roomCode drawn w)"
| reveal_deadline:
    "reachable cfg w \<Longrightarrow> rooms w c = Some room
     \<Longrightarrow> revealTimer room = Some (Timeout (EndRoundCb roomCode) delay)
     \<Longrightarrow> reachable cfg (endRound roomCode w)"

section \<open>Auxiliary notions for the properties\<close>

text \<open>What a final score takes over from the player: its id, its name and its total.\<close>

definition publicScore :: "PlayerScore \<Rightarrow> string \<times> string \<times> int" where
  "publicScore s = (playerId s, playerName s, ps_score s)"

text \<open>
  Sample states for the concrete instances below: a named, ready, connected player, a room
  with code \<^verbatim>\<open>ABC123\<close> on the default configuration, and the server state holding just
  that room, each player on a socket of its own.
\<close>

definition samplePlayer :: "string \<Rightarrow> string \<Rightarrow> string \<Rightarrow> int \<Rightarrow> Player" where
  "samplePlayer pid sid nm sc = \<lparr> idP = pid, socketId = sid, name = nm, isReady = True,
     isHost = False, score = sc, currentHeight = None, isConnected = True \<rparr>"

definition sampleRoom :: "RoomState \<Rightarrow> int \<Rightarrow> (string \<times> Player) list \<Rightarrow> Room" where
  "sampleRoom st rnd ps = \<lparr> code = ''ABC123'', players = ps, state = st, currentRound = rnd,
     maxRounds = 10, selectionTimer = None, revealTimer = None, selectionDuration = 15,
     revealDuration = 5, currentWallHole = None, restartConsents = [] \<rparr>"

definition sampleWorld :: "Room \<Rightarrow> World" where
  "sampleWorld room = \<lparr> rooms = [code room \<mapsto> room],
     playerRoomMap = map_of (map (\<lambda>(k, p). (k, code room)) (players room)),
     socketPlayerMap = map_of (map (\<lambda>(k, p). (socketId p, k)) (players room)),
     emitted = [] \<rparr>"

definition ana :: Player where
  "ana = (samplePlayer ''p1'' ''s1'' ''Ana'' 5)\<lparr>isHost := True\<rparr>"

definition ben :: Player where
  "ben = samplePlayer ''p2'' ''s2'' ''Ben'' 20"

definition cleo :: Player where
  "cleo = samplePlayer ''p3'' ''s3'' ''Cleo'' 20"

text \<open>
  A finished game of Ana and Ben: phase game-over after round 10, last target 7, both still
  flagged ready from the start of the game.
\<close>

definition gameOverRoom :: Room where
  "gameOverRoom = (sampleRoom GameOver 10 [(''p1'', ana), (''p2'', ben)])\<lparr>currentWallHole := Some 7\<rparr>"

definition gameOverWorld :: World where
  "gameOverWorld = sampleWorld gameOverRoom"

text \<open>
  The deadline handles of a room agree with its phase: the selection deadline is armed
  exactly in phase selection, the reveal deadline exactly in phase revealing.
\<close>

definition deadlinesMatchPhase :: "Room \<Rightarrow> bool" where
  "deadlinesMatchPhase r \<longleftrightarrow>
     (selectionTimer r \<noteq> None \<longleftrightarrow> state r = Selection)
   \<and> (revealTimer r \<noteq> None \<longleftrightarrow> state r = Revealing)"

definition allDeadlinesMatch :: "World \<Rightarrow> bool" where
  "allDeadlinesMatch w \<longleftrightarrow> (\<forall>c r. rooms w c = Some r \<longrightarrow> deadlinesMatchPhase r)"

text \<open>
  A run of the server from its start: a connection creates room \<^verbatim>\<open>ABC123\<close>, names its
  player Ana and marks it ready, which starts the game; then the selection deadline fires
  with target 7.
\<close>

definition createdWorld :: World where
  "createdWorld =
     (case handleCreateRoom defaultConfig ''s1'' ''p1'' [''ABC123''] emptyWorld of
        None \<Rightarrow> emptyWorld | Some w \<Rightarrow> w)"

definition startedWorld :: World where
  "startedWorld = handlePlayerReady ''s1'' (handleSetPlayerName ''Ana'' ''s1'' createdWorld)"

definition revealedWorld :: World where
  "revealedWorld = endSelectionPeriod defaultConfig ''ABC123'' 7 startedWorld"

text \<open>
  The game that Ana has started alone, played to its end: ten times the selection deadline
  fires with target 7 and then the reveal deadline fires. \<open>anaPlaysAlone st rnd w\<close> says
  that in \<open>w\<close> Ana, on socket \<^verbatim>\<open>s1\<close>, named, ready and connected, is the only player of room
  \<^verbatim>\<open>ABC123\<close>, which is in phase \<open>st\<close> at round \<open>rnd\<close> of 10 with no restart consent and
  with the deadline of that phase armed.
\<close>

definition playRound :: "World \<Rightarrow> World" where
  "playRound w = endRound ''ABC123'' (endSelectionPeriod defaultConfig ''ABC123'' 7 w)"

definition finishedWorld :: World where
  "finishedWorld = (playRound ^^ 10) startedWorld"

definition anaPlaysAlone :: "RoomState \<Rightarrow> int \<Rightarrow> World \<Rightarrow> bool" where
  "anaPlaysAlone st rnd w \<longleftrightarrow>
     socketPlayerMap w ''s1'' = Some ''p1'' \<and> playerRoomMap w ''p1'' = Some ''ABC123''
   \<and> (\<exists>r p. rooms w ''ABC123'' = Some r \<and> code r = ''ABC123'' \<and> state r = st
          \<and> currentRound r = rnd \<and> maxRounds r = 10 \<and> restartConsents r = []
          \<and> selectionTimer r =
               (if st = Selection
                then Some (Timeout (EndSelectionPeriodCb ''ABC123'') (selectionDuration r * 1000))
                else None)
          \<and> revealTimer r =
               (if st = Revealing
                then Some (Timeout (EndRoundCb ''ABC123'') (revealDuration r * 1000))
                else None)
          \<and> players r = [(''p1'', p)] \<and> name p = ''Ana'' \<and> isReady p \<and> isConnected p)"

text \<open>
  A game of three. Ana creates room \<^verbatim>\<open>ABC123\<close>, Ben and Cleo join it, all three set their
  names and mark ready, which starts the game. \<open>trioPlays st rnd w\<close> says that in \<open>w\<close> the
  three, each on its socket and connected, are the roster of the room, which is in phase
  \<open>st\<close> at round \<open>rnd\<close> of 10 with no restart consent and with the deadline of that phase
  armed. In one run the game is played to its end, Ana and Ben give their restart consent
  and then Cleo disconnects; in another Cleo disconnects during the first selection phase
  and the selection deadline then fires with target 7.
\<close>

definition trioStartedWorld :: World where
  "trioStartedWorld =
     handlePlayerReady ''s3'' (handlePlayerReady ''s2'' (handlePlayerReady ''s1''
       (handleSetPlayerName ''Cleo'' ''s3'' (handleSetPlayerName ''Ben'' ''s2''
          (handleSetPlayerName ''Ana'' ''s1''
             (handleJoinRoom ''ABC123'' ''s3'' ''p3''
                (handleJoinRoom ''ABC123'' ''s2'' ''p2'' createdWorld)))))))"





definition cleoLeftWorld :: World where
  "cleoLeftWorld = handleDisconnect ''s3'' trioStartedWorld"

definition cleoScoredWorld :: World where
  "cleoScoredWorld = endSelectionPeriod defaultConfig ''ABC123'' 7 cleoLeftWorld"

section \<open>Properties of the score calculator\<close>

text \<open>
  Claim C7. With scoring constants ordered reward > 0 > too-low penalty > too-high penalty,
  the score is the reward exactly when the guess equals the target, the too-low penalty
  exactly when the guess is below it and the too-high penalty exactly when it is above;
  the reward is the largest value the function returns; and the outcome category is
  perfect, too-low or too-high in exactly the same three cases. The theorem holds for all
  integers, in particular for guesses and targets in 1..10.
\<close>

theorem score_and_category_agree:
  assumes "scoring_perfect cfg > 0" and "0 > scoring_tooLow cfg"
    and "scoring_tooLow cfg > scoring_tooHigh cfg"
  shows "(calculatePoints cfg g t = scoring_perfect cfg \<longleftrightarrow> g = t)
       \<and> (calculatePoints cfg g t = scoring_tooLow cfg \<longleftrightarrow> g < t)
       \<and> (calculatePoints cfg g t = scoring_tooHigh cfg \<longleftrightarrow> g > t)
       \<and> calculatePoints cfg g' t' \<le> scoring_perfect cfg
       \<and> (getResultType g t = Perfect \<longleftrightarrow> g = t)
       \<and> (getResultType g t = TooLow \<longleftrightarrow> g < t)
       \<and> (getResultType g t = TooHigh \<longleftrightarrow> g > t)
       \<and> (getResultType g t = Perfect \<longleftrightarrow> calculatePoints cfg g t = scoring_perfect cfg)
       \<and> (getResultType g t = TooLow \<longleftrightarrow> calculatePoints cfg g t = scoring_tooLow cfg)
       \<and> (getResultType g t = TooHigh \<longleftrightarrow> calculatePoints cfg g t = scoring_tooHigh cfg)"
  using assms by (auto simp: calculatePoints_def getResultType_def)

theorem score_and_category_agree_witness:
  "scoring_perfect defaultConfig > 0 \<and> 0 > scoring_tooLow defaultConfig
   \<and> scoring_tooLow defaultConfig > scoring_tooHigh defaultConfig
   \<and> calculatePoints defaultConfig 7 7 = 20
   \<and> calculatePoints defaultConfig 5 7 = -5
   \<and> calculatePoints defaultConfig 9 7 = -10
   \<and> getResultType 5 7 = TooLow
   \<and> (getResultType 5 7 = TooLow \<longleftrightarrow> calculatePoints defaultConfig 5 7 = scoring_tooLow defaultConfig)"
  using score_and_category_agree [of defaultConfig 5 7 9 7]
  by (simp add: defaultConfig_def calculatePoints_def getResultType_def)

section \<open>Final ranking\<close>

lemma rankScores_length: "length (rankScores xs) = length xs"
  by (simp add: rankScores_def Let_def)

lemma highest_is_hd:
  "ys \<noteq> [] \<Longrightarrow> (case ys of [] \<Rightarrow> 0 | s # _ \<Rightarrow> ps_score s) = ps_score (hd ys)"
  by (cases ys) auto

lemma rankScores_nth:
  assumes "i < length xs"
  shows "rankScores xs ! i =
     (sort_key (\<lambda>s. - ps_score s) xs ! i)\<lparr>rank := int i + 1,
        isWinner := (ps_score (sort_key (\<lambda>s. - ps_score s) xs ! i)
                       = ps_score (hd (sort_key (\<lambda>s. - ps_score s) xs)))\<rparr>"
proof -
  let ?ys = "sort_key (\<lambda>s. - ps_score s) xs"
  have len: "i < length ?ys" using assms by simp
  then have ne: "?ys \<noteq> []" by (metis list.size(3) not_less_zero)
  have "rankScores xs =
      map (\<lambda>(index, s). s\<lparr>rank := int index + 1, isWinner := (ps_score s = ps_score (hd ?ys))\<rparr>)
        (enumerate 0 ?ys)"
    unfolding rankScores_def Let_def highest_is_hd [OF ne] ..
  then show ?thesis using len
    by (simp add: nth_enumerate_eq del: length_sort)
qed

lemma sorted_desc_scores:
  "sorted_wrt (\<lambda>a b. a \<ge> b) (map ps_score (sort_key (\<lambda>s. - ps_score s) xs))"
proof -
  have "sorted (map (\<lambda>s. - ps_score s) (sort_key (\<lambda>s. - ps_score s) xs))"
    by (rule sorted_sort_key)
  then show ?thesis
    by (simp add: sorted_wrt_map)
qed

lemma hd_sorted_desc_Max:
  assumes "sorted_wrt (\<lambda>a b. a \<ge> b) (zs :: int list)" and "zs \<noteq> []"
  shows "hd zs = Max (set zs)"
proof -
  obtain z zs' where zs: "zs = z # zs'" using assms(2) by (cases zs) auto
  have "\<forall>y \<in> set zs'. y \<le> z" using assms(1) zs by auto
  then have "Max (set (z # zs')) = z"
    by (intro Max_eqI) auto
  then show ?thesis using zs by simp
qed


lemma rankScores_public:
  "map publicScore (rankScores xs) = map publicScore (sort_key (\<lambda>s. - ps_score s) xs)"
proof (rule nth_equalityI)
  show "length (map publicScore (rankScores xs))
      = length (map publicScore (sort_key (\<lambda>s. - ps_score s) xs))"
    by (simp add: rankScores_length)
next
  fix i assume "i < length (map publicScore (rankScores xs))"
  then have i: "i < length xs" by (simp add: rankScores_length)
  then show "map publicScore (rankScores xs) ! i
      = map publicScore (sort_key (\<lambda>s. - ps_score s) xs) ! i"
    by (simp add: rankScores_length rankScores_nth publicScore_def)
qed

lemma rankScores_mset:
  "mset (map publicScore (rankScores xs)) = mset (map publicScore xs)"
  by (simp add: rankScores_public)

lemma rankScores_scores:
  "map ps_score (rankScores xs) = map ps_score (sort_key (\<lambda>s. - ps_score s) xs)"
proof -
  have "map ps_score (rankScores xs) = map (\<lambda>t. snd (snd t)) (map publicScore (rankScores xs))"
    by (simp add: publicScore_def comp_def)
  also have "\<dots> = map (\<lambda>t. snd (snd t)) (map publicScore (sort_key (\<lambda>s. - ps_score s) xs))"
    by (simp only: rankScores_public)
  also have "\<dots> = map ps_score (sort_key (\<lambda>s. - ps_score s) xs)"
    by (simp add: publicScore_def comp_def)
  finally show ?thesis .
qed

lemma rankScores_sorted: "sorted_wrt (\<lambda>a b. a \<ge> b) (map ps_score (rankScores xs))"
  by (simp only: rankScores_scores sorted_desc_scores)

lemma rankScores_rank: "i < length xs \<Longrightarrow> rank (rankScores xs ! i) = int i + 1"
  by (simp add: rankScores_nth)

lemma rankScores_winner:
  assumes "i < length xs"
  shows "isWinner (rankScores xs ! i) \<longleftrightarrow> ps_score (rankScores xs ! i) = Max (ps_score ` set xs)"
proof -
  let ?ys = "sort_key (\<lambda>s. - ps_score s) xs"
  have ne: "?ys \<noteq> []" using assms by (metis length_sort list.size(3) not_less_zero)
  have "ps_score (hd ?ys) = hd (map ps_score ?ys)"
    using ne by (simp add: hd_map)
  also have "\<dots> = Max (set (map ps_score ?ys))"
    using ne by (intro hd_sorted_desc_Max sorted_desc_scores) simp
  also have "\<dots> = Max (ps_score ` set xs)"
    by simp
  finally show ?thesis using assms
    by (simp add: rankScores_nth)
qed

lemma initial_scores_public:
  "map publicScore (map (\<lambda>(k, p). initialScore p) ps) = map (\<lambda>(k, p). (idP p, name p, score p)) ps"
  by (induction ps) (auto simp: publicScore_def initialScore_def)

lemma initial_scores_set:
  "ps_score ` set (map (\<lambda>(k, p). initialScore p) ps) = set (map (\<lambda>(k, p). score p) ps)"
  by (induction ps) (auto simp: initialScore_def)

lemma endGame_fst:
  "getRoom w roomCode = Some room \<Longrightarrow>
   fst (endGame roomCode w) = rankScores (map (\<lambda>(k, p). initialScore p) (players room))"
  by (simp add: endGame_def Let_def)

text \<open>
  Claim C6. For the roster of a registered room, the final scores that \<open>endGame\<close> returns
  hold every player once with its id, name and total; they are in descending order of
  total; the rank of an entry is its 1-based position, so equal totals get consecutive
  ranks; an entry is a winner exactly when its total is the maximum of the roster; on a
  non-empty roster the first entry is a winner; and a single-player roster gives exactly
  one entry, of rank 1 and winner.
\<close>

theorem endGame_final_scores:
  assumes "getRoom w roomCode = Some room"
  shows "let fs = fst (endGame roomCode w) in
           length fs = length (players room)
         \<and> mset (map publicScore fs) = mset (map (\<lambda>(k, p). (idP p, name p, score p)) (players room))
         \<and> sorted_wrt (\<lambda>a b. a \<ge> b) (map ps_score fs)
         \<and> (\<forall>i < length fs. rank (fs ! i) = int i + 1)
         \<and> (\<forall>i < length fs. isWinner (fs ! i)
               \<longleftrightarrow> ps_score (fs ! i) = Max (set (map (\<lambda>(k, p). score p) (players room))))
         \<and> (players room \<noteq> [] \<longrightarrow> isWinner (fs ! 0))
         \<and> (length (players room) = 1 \<longrightarrow> length fs = 1 \<and> rank (fs ! 0) = 1 \<and> isWinner (fs ! 0))"
proof -
  let ?xs = "map (\<lambda>(k, p). initialScore p) (players room)"
  have fs: "fst (endGame roomCode w) = rankScores ?xs"
    using assms(1) by (rule endGame_fst)
  have len: "length (rankScores ?xs) = length (players room)"
    by (simp add: rankScores_length)
  have pub: "mset (map publicScore (rankScores ?xs))
      = mset (map (\<lambda>(k, p). (idP p, name p, score p)) (players room))"
    by (simp only: rankScores_mset initial_scores_public)
  have ranks: "\<forall>i < length (rankScores ?xs). rank (rankScores ?xs ! i) = int i + 1"
    by (simp add: rankScores_length rankScores_rank)
  have win: "\<forall>i < length (rankScores ?xs). isWinner (rankScores ?xs ! i)
       \<longleftrightarrow> ps_score (rankScores ?xs ! i) = Max (set (map (\<lambda>(k, p). score p) (players room)))"
    using rankScores_winner [of _ ?xs]
    by (simp only: rankScores_length initial_scores_set) simp
  have top: "players room \<noteq> [] \<longrightarrow> isWinner (rankScores ?xs ! 0)"
  proof
    assume "players room \<noteq> []"
    then have pos: "0 < length ?xs" by simp
    then have "sort_key (\<lambda>s. - ps_score s) ?xs \<noteq> []"
      by (metis length_sort list.size(3) less_numeral_extra(3))
    then show "isWinner (rankScores ?xs ! 0)"
      using pos by (simp add: rankScores_nth hd_conv_nth del: length_map)
  qed
  have single: "length (players room) = 1 \<longrightarrow>
      length (rankScores ?xs) = 1 \<and> rank (rankScores ?xs ! 0) = 1 \<and> isWinner (rankScores ?xs ! 0)"
  proof
    assume one: "length (players room) = 1"
    then obtain x where x: "?xs = [x]"
      by (cases "players room") auto
    have "rankScores [x] = [x\<lparr>rank := 1, isWinner := True\<rparr>]"
      by (simp add: rankScores_def)
    then show "length (rankScores ?xs) = 1 \<and> rank (rankScores ?xs ! 0) = 1
        \<and> isWinner (rankScores ?xs ! 0)"
      by (simp add: x)
  qed
  show ?thesis
    unfolding Let_def fs using len pub rankScores_sorted [of ?xs] ranks win top single by blast
qed

text \<open>
  Three players with totals 5, 20 and 20: the two tied at the top are ranked 1 and 2 in
  roster order and both are winners, the third is ranked 3.
\<close>

theorem endGame_final_scores_witness:
  "getRoom (sampleWorld (sampleRoom Revealing 10 [(''p1'', ana), (''p2'', ben), (''p3'', cleo)])) ''ABC123''
     = Some (sampleRoom Revealing 10 [(''p1'', ana), (''p2'', ben), (''p3'', cleo)])
   \<and> fst (endGame ''ABC123'' (sampleWorld (sampleRoom Revealing 10 [(''p1'', ana), (''p2'', ben), (''p3'', cleo)])))
     = [\<lparr> playerId = ''p2'', playerName = ''Ben'', ps_score = 20, rank = 1, isWinner = True \<rparr>,
        \<lparr> playerId = ''p3'', playerName = ''Cleo'', ps_score = 20, rank = 2, isWinner = True \<rparr>,
        \<lparr> playerId = ''p1'', playerName = ''Ana'', ps_score = 5, rank = 3, isWinner = False \<rparr>]"
proof -
  let ?room = "sampleRoom Revealing 10 [(''p1'', ana), (''p2'', ben), (''p3'', cleo)]"
  have reg: "getRoom (sampleWorld ?room) ''ABC123'' = Some ?room"
    by (simp add: getRoom_def sampleWorld_def sampleRoom_def)
  have val: "rankScores (map (\<lambda>(k, p). initialScore p) (players ?room))
     = [\<lparr> playerId = ''p2'', playerName = ''Ben'', ps_score = 20, rank = 1, isWinner = True \<rparr>,
        \<lparr> playerId = ''p3'', playerName = ''Cleo'', ps_score = 20, rank = 2, isWinner = True \<rparr>,
        \<lparr> playerId = ''p1'', playerName = ''Ana'', ps_score = 5, rank = 3, isWinner = False \<rparr>]"
    by (simp add: rankScores_def sampleRoom_def initialScore_def ana_def ben_def cleo_def
        samplePlayer_def enumerate_eq_zip upt_rec)
  show ?thesis
    using endGame_final_scores [OF reg] reg val by (simp add: endGame_fst [OF reg])
qed

section \<open>Joining a room\<close>

lemma update_fresh_appends:
  "k \<notin> fst ` set ps \<Longrightarrow> AList.update k v ps = ps @ [(k, v)]"
  by (induction ps) auto

lemma joinRoom_registered:
  assumes "rooms w roomCode = Some room"
  shows "joinRoom roomCode pid sid w =
     (True, w\<lparr>rooms := (rooms w)(roomCode \<mapsto>
                  room\<lparr>players := AList.update pid (newPlayer pid sid (players room = [])) (players room)\<rparr>),
              playerRoomMap := (playerRoomMap w)(pid \<mapsto> roomCode)\<rparr>)"
  using assms by (simp add: joinRoom_def storeRoom_def Let_def)

text \<open>
  Claim C10. \<open>joinRoom\<close> returns true for every registered room, whatever its phase (the
  theorem has no hypothesis on the phase, which is left as it was), and the roster then
  holds under the new id a player with empty name, not ready, score 0, no guess, connected,
  and host exactly when the roster was empty before; the other entries are untouched and a
  fresh id is appended at the end. The gateway's \<open>handleJoinRoom\<close> does just this on a
  registered room and confirms with \<^verbatim>\<open>room-joined\<close>.
\<close>

theorem joinRoom_any_phase:
  assumes "rooms w roomCode = Some room"
  shows "fst (joinRoom roomCode pid sid w) = True
       \<and> playerRoomMap (snd (joinRoom roomCode pid sid w)) pid = Some roomCode
       \<and> (\<exists>room'. rooms (snd (joinRoom roomCode pid sid w)) roomCode = Some room'
            \<and> state room' = state room
            \<and> map_of (players room') pid
                = Some \<lparr> idP = pid, socketId = sid, name = [], isReady = False,
                         isHost = (players room = []), score = 0, currentHeight = None,
                         isConnected = True \<rparr>
            \<and> (\<forall>k. k \<noteq> pid \<longrightarrow> map_of (players room') k = map_of (players room) k)
            \<and> (pid \<notin> fst ` set (players room) \<longrightarrow>
                 players room' = players room @
                   [(pid, \<lparr> idP = pid, socketId = sid, name = [], isReady = False,
                            isHost = (players room = []), score = 0, currentHeight = None,
                            isConnected = True \<rparr>)]))
       \<and> rooms (handleJoinRoom roomCode sid pid w) = rooms (snd (joinRoom roomCode pid sid w))
       \<and> ToClient sid ''room-joined'' (RoomJoined roomCode pid)
            \<in> set (emitted (handleJoinRoom roomCode sid pid w))"
proof -
  let ?np = "newPlayer pid sid (players room = [])"
  let ?room' = "room\<lparr>players := AList.update pid ?np (players room)\<rparr>"
  note jr = joinRoom_registered [OF assms, of pid sid]
  have r': "rooms (snd (joinRoom roomCode pid sid w)) roomCode = Some ?room'"
    by (simp add: jr)
  have np: "?np = \<lparr> idP = pid, socketId = sid, name = [], isReady = False,
                     isHost = (players room = []), score = 0, currentHeight = None,
                     isConnected = True \<rparr>"
    by (simp add: newPlayer_def)
  have a: "state ?room' = state room" by simp
  have b: "map_of (players ?room') pid = Some ?np"
    by (simp add: update_conv')
  have c: "\<forall>k. k \<noteq> pid \<longrightarrow> map_of (players ?room') k = map_of (players room) k"
    by (simp add: update_conv')
  have d: "pid \<notin> fst ` set (players room) \<longrightarrow> players ?room' = players room @ [(pid, ?np)]"
    by (simp add: update_fresh_appends)
  have e: "rooms (handleJoinRoom roomCode sid pid w) = rooms (snd (joinRoom roomCode pid sid w))"
    using assms
    by (simp add: handleJoinRoom_def getRoom_def jr emitPlayerListUpdate_def emitRoomState_def
        emitToRoom_def emit_def)
  have f: "ToClient sid ''room-joined'' (RoomJoined roomCode pid)
            \<in> set (emitted (handleJoinRoom roomCode sid pid w))"
    using assms
    by (simp add: handleJoinRoom_def getRoom_def jr emitPlayerListUpdate_def emitRoomState_def
        emitToRoom_def emit_def)
  show ?thesis
    using r' a b c d e f unfolding np by (simp add: jr)
qed


theorem joinRoom_any_phase_witness:
  "rooms (sampleWorld (sampleRoom GameOver 10 [(''p1'', ana)])) ''ABC123''
     = Some (sampleRoom GameOver 10 [(''p1'', ana)])
   \<and> fst (joinRoom ''ABC123'' ''p9'' ''s9'' (sampleWorld (sampleRoom GameOver 10 [(''p1'', ana)])))
   \<and> map_option (\<lambda>r. (state r, players r))
        (rooms (snd (joinRoom ''ABC123'' ''p9'' ''s9''
                       (sampleWorld (sampleRoom GameOver 10 [(''p1'', ana)])))) ''ABC123'')
     = Some (GameOver, [(''p1'', ana),
         (''p9'', \<lparr> idP = ''p9'', socketId = ''s9'', name = [], isReady = False, isHost = False,
                    score = 0, currentHeight = None, isConnected = True \<rparr>)])
   \<and> fst (joinRoom ''ABC123'' ''p9'' ''s9'' (sampleWorld (sampleRoom Selection 3 [])))
   \<and> map_option players
        (rooms (snd (joinRoom ''ABC123'' ''p9'' ''s9'' (sampleWorld (sampleRoom Selection 3 []))))
           ''ABC123'')
     = Some [(''p9'', \<lparr> idP = ''p9'', socketId = ''s9'', name = [], isReady = False, isHost = True,
                    score = 0, currentHeight = None, isConnected = True \<rparr>)]"
proof -
  have reg1: "rooms (sampleWorld (sampleRoom GameOver 10 [(''p1'', ana)])) ''ABC123''
     = Some (sampleRoom GameOver 10 [(''p1'', ana)])"
    by (simp add: sampleWorld_def sampleRoom_def)
  have reg2: "rooms (sampleWorld (sampleRoom Selection 3 [])) ''ABC123''
     = Some (sampleRoom Selection 3 [])"
    by (simp add: sampleWorld_def sampleRoom_def)
  show ?thesis
    using joinRoom_any_phase [OF reg1, of "''p9''" "''s9''"]
      joinRoom_any_phase [OF reg2, of "''p9''" "''s9''"] reg1
    by (simp add: joinRoom_def storeRoom_def Let_def sampleWorld_def sampleRoom_def newPlayer_def)
qed

text \<open>
  Claim C3. With \<^verbatim>\<open>MAX_PLAYERS_PER_ROOM=2\<close> and a room that already holds two players, a
  third join is accepted: the roster grows to three and the joining connection receives
  \<^verbatim>\<open>room-joined\<close> and no \<^verbatim>\<open>room-error\<close>. No handler reads \<open>maxPlayersPerRoom\<close>.
\<close>

theorem join_full_room_accepted:
  "maxPlayersPerRoom (defaultConfig\<lparr>maxPlayersPerRoom := 2\<rparr>) = 2
   \<and> length (players (sampleRoom Lobby 0 [(''p1'', ana), (''p2'', ben)])) = 2
   \<and> map_option (\<lambda>r. map fst (players r))
        (rooms (handleJoinRoom ''ABC123'' ''s3'' ''p3''
                  (sampleWorld (sampleRoom Lobby 0 [(''p1'', ana), (''p2'', ben)]))) ''ABC123'')
     = Some [''p1'', ''p2'', ''p3'']
   \<and> map (\<lambda>e. case e of ToClient c ev _ \<Rightarrow> (c, ev) | ToRoom c ev _ \<Rightarrow> (c, ev))
        (emitted (handleJoinRoom ''ABC123'' ''s3'' ''p3''
                  (sampleWorld (sampleRoom Lobby 0 [(''p1'', ana), (''p2'', ben)]))))
     = [(''s3'', ''room-joined''), (''s3'', ''room-state''), (''ABC123'', ''player-list-updated'')]"
proof -
  have reg: "rooms (sampleWorld (sampleRoom Lobby 0 [(''p1'', ana), (''p2'', ben)])) ''ABC123''
     = Some (sampleRoom Lobby 0 [(''p1'', ana), (''p2'', ben)])"
    by (simp add: sampleWorld_def sampleRoom_def)
  show ?thesis
    by (simp add: handleJoinRoom_def getRoom_def joinRoom_def storeRoom_def Let_def
        emitPlayerListUpdate_def emitRoomState_def emitToRoom_def emit_def
        sampleRoom_def sampleWorld_def defaultConfig_def)
qed

section \<open>Guesses outside the selection phase\<close>

lemma getRoomByPlayerId_Some:
  "playerRoomMap w pid = Some roomCode \<Longrightarrow> roomCode \<noteq> [] \<Longrightarrow>
   getRoomByPlayerId w pid = rooms w roomCode"
  by (simp add: getRoomByPlayerId_def lookupId_def)

lemma lookupId_Some: "m k = Some v \<Longrightarrow> v \<noteq> [] \<Longrightarrow> lookupId m k = Some v"
  by (simp add: lookupId_def)

text \<open>
  Claim C8. When a player of a room whose phase is not selection submits a guess, the
  gateway leaves the whole server state as it was, no room and so no player's
  \<open>currentHeight\<close> changes, and sends the acting connection one \<^verbatim>\<open>room-error\<close> saying that
  it is not the moment to select a height; \<open>submitHeight\<close> of the game service, called on
  such a room for any player, changes nothing either.
\<close>

theorem guess_rejected_outside_selection:
  assumes "socketPlayerMap w client = Some pid" and "pid \<noteq> []"
    and "playerRoomMap w pid = Some roomCode" and "roomCode \<noteq> []"
    and "rooms w roomCode = Some room" and "state room \<noteq> Selection"
  shows "handleSelectHeight h client w
           = w\<lparr>emitted := emitted w @
                 [ToClient client ''room-error'' (Message ''No es momento de seleccionar altura'')]\<rparr>
       \<and> rooms (handleSelectHeight h client w) = rooms w
       \<and> submitHeight roomCode pid' h w = w"
  using assms
  by (simp add: handleSelectHeight_def lookupId_Some getRoomByPlayerId_Some roomError_def emit_def
      submitHeight_def getRoom_def)

theorem guess_rejected_outside_selection_witness:
  "socketPlayerMap (sampleWorld (sampleRoom Revealing 3 [(''p1'', ana), (''p2'', ben)])) ''s2'' = Some ''p2''
   \<and> playerRoomMap (sampleWorld (sampleRoom Revealing 3 [(''p1'', ana), (''p2'', ben)])) ''p2'' = Some ''ABC123''
   \<and> rooms (sampleWorld (sampleRoom Revealing 3 [(''p1'', ana), (''p2'', ben)])) ''ABC123''
       = Some (sampleRoom Revealing 3 [(''p1'', ana), (''p2'', ben)])
   \<and> state (sampleRoom Revealing 3 [(''p1'', ana), (''p2'', ben)]) \<noteq> Selection
   \<and> rooms (handleSelectHeight 7 ''s2'' (sampleWorld (sampleRoom Revealing 3 [(''p1'', ana), (''p2'', ben)])))
       = rooms (sampleWorld (sampleRoom Revealing 3 [(''p1'', ana), (''p2'', ben)]))
   \<and> emitted (handleSelectHeight 7 ''s2'' (sampleWorld (sampleRoom Revealing 3 [(''p1'', ana), (''p2'', ben)])))
       = [ToClient ''s2'' ''room-error'' (Message ''No es momento de seleccionar altura'')]"
proof -
  let ?w = "sampleWorld (sampleRoom Revealing 3 [(''p1'', ana), (''p2'', ben)])"
  have a: "socketPlayerMap ?w ''s2'' = Some ''p2''"
    by (simp add: sampleWorld_def sampleRoom_def ana_def ben_def samplePlayer_def)
  have b: "playerRoomMap ?w ''p2'' = Some ''ABC123''"
    by (simp add: sampleWorld_def sampleRoom_def)
  have c: "rooms ?w ''ABC123'' = Some (sampleRoom Revealing 3 [(''p1'', ana), (''p2'', ben)])"
    by (simp add: sampleWorld_def sampleRoom_def)
  have d: "state (sampleRoom Revealing 3 [(''p1'', ana), (''p2'', ben)]) \<noteq> Selection"
    by (simp add: sampleRoom_def)
  have e: "emitted ?w = []" by (simp add: sampleWorld_def)
  show ?thesis
    using guess_rejected_outside_selection [OF a _ b _ c d, of 7 "''p2''"] a b c d e
    by simp
qed

section \<open>Restart by consent\<close>







section \<open>Disconnects\<close>

lemma rooms_emit [simp]: "rooms (emit e w) = rooms w"
  by (simp add: emit_def)

lemma rooms_emitToRoom [simp]: "rooms (emitToRoom c ev pl w) = rooms w"
  by (simp add: emitToRoom_def)

lemma rooms_emitPlayerListUpdate [simp]: "rooms (emitPlayerListUpdate c w) = rooms w"
  by (simp add: emitPlayerListUpdate_def split: option.splits)

lemma rooms_forgetSocket [simp]: "rooms (forgetSocket client w) = rooms w"
  by (simp add: forgetSocket_def)

lemma rooms_storeRoom [simp]: "rooms (storeRoom c r w) = (rooms w)(c \<mapsto> r)"
  by (simp add: storeRoom_def)

lemma rooms_deleteRoom [simp]: "rooms (deleteRoom c w) = (rooms w)(c := None)"
  by (auto simp: deleteRoom_def split: option.splits)


lemma promoteFirst_Nil [simp]: "promoteFirst ps = [] \<longleftrightarrow> ps = []"
  by (cases ps) (auto simp: promoteFirst_def)














section \<open>The reveal computation and disconnected players\<close>

lemma forEachPlayer_twice:
  "forEachPlayer f (forEachPlayer g ps) = forEachPlayer (\<lambda>p. f (g p)) ps"
  by (induction ps) (auto simp: forEachPlayer_def)

lemma selectedHeightOf_assignDefault [simp]:
  "selectedHeightOf (assignDefault p) = selectedHeightOf p"
  by (simp add: selectedHeightOf_def assignDefault_def)

lemma addPoints_assignDefault:
  "addPoints cfg hole (assignDefault p) =
     p\<lparr>currentHeight := (if isConnected p \<and> currentHeight p = None then Some defaultHeight
                          else currentHeight p),
       score := score p + calculatePoints cfg (selectedHeightOf p) hole\<rparr>"
  by (cases "isConnected p \<and> currentHeight p = None")
    (auto simp: addPoints_def assignDefault_def selectedHeightOf_def)

lemma endSelectionPeriod_selection:
  assumes "getRoom w roomCode = Some room" and "state room = Selection"
  shows "endSelectionPeriod cfg roomCode drawn w =
     w\<lparr>rooms := (rooms w)(roomCode \<mapsto>
           room\<lparr>selectionTimer := None,
                players := forEachPlayer (\<lambda>p. addPoints cfg drawn (assignDefault p)) (players room),
                currentWallHole := Some drawn, state := Revealing,
                revealTimer := Some (Timeout (EndRoundCb roomCode) (revealDuration room * 1000))\<rparr>),
       emitted := emitted w @
         [ToRoom roomCode ''selection-locked'' NoData,
          ToRoom roomCode ''wall-revealed''
            (WallRevealed drawn
               (map (\<lambda>(k, p). roundResultOf cfg drawn p)
                  (forEachPlayer (\<lambda>p. addPoints cfg drawn (assignDefault p)) (players room))))]\<rparr>"
  using assms
  apply (simp add: endSelectionPeriod_def Let_def getRoom_def storeRoom_def calculateResults_def
      emitSelectionLocked_def emitWallRevealed_def emitToRoom_def emit_def forEachPlayer_twice)
  apply (rule World.equality; simp)
  apply (rule arg_cong [where f = "\<lambda>r. (rooms w)(roomCode \<mapsto> r)"])
  apply (rule Room.equality; simp)
  done


lemma selectedHeightOf_scored [simp]:
  "selectedHeightOf (addPoints cfg hole p) = selectedHeightOf p"
  by (simp add: selectedHeightOf_def addPoints_def)

section \<open>Deadlines and phases\<close>

lemma allDeadlinesMatch_same:
  "rooms w' = rooms w \<Longrightarrow> allDeadlinesMatch w \<Longrightarrow> allDeadlinesMatch w'"
  by (simp add: allDeadlinesMatch_def)

lemma allDeadlinesMatch_update:
  "rooms w' = (rooms w)(c \<mapsto> r) \<Longrightarrow> deadlinesMatchPhase r \<Longrightarrow> allDeadlinesMatch w
   \<Longrightarrow> allDeadlinesMatch w'"
  by (simp add: allDeadlinesMatch_def)

lemma allDeadlinesMatch_delete:
  "rooms w' = (rooms w)(c := None) \<Longrightarrow> allDeadlinesMatch w \<Longrightarrow> allDeadlinesMatch w'"
  by (simp add: allDeadlinesMatch_def)

lemma rooms_emitRoundStarted [simp]: "rooms (emitRoundStarted c w) = rooms w"
  by (simp add: emitRoundStarted_def split: option.splits)

lemma rooms_emitRoomState [simp]: "rooms (emitRoomState client c w) = rooms w"
  by (simp add: emitRoomState_def split: option.splits)

lemma rooms_roomError [simp]: "rooms (roomError client msg w) = rooms w"
  by (simp add: roomError_def)

lemma rooms_emitRoundEnded [simp]: "rooms (emitRoundEnded c scores w) = rooms w"
  by (simp add: emitRoundEnded_def)

lemma rooms_emitGameEnded [simp]: "rooms (emitGameEnded c scores w) = rooms w"
  by (simp add: emitGameEnded_def)

lemma startRound_unregistered: "rooms w c = None \<Longrightarrow> startRound c w = w"
  by (simp add: startRound_def getRoom_def)

lemma startRound_registered:
  assumes "rooms w c = Some r"
  shows "\<exists>r'. rooms (startRound c w) = (rooms w)(c \<mapsto> r')
           \<and> state r' = Selection \<and> selectionTimer r' \<noteq> None \<and> revealTimer r' = None
           \<and> currentRound r' = currentRound r \<and> maxRounds r' = maxRounds r"
  using assms
  apply (simp add: startRound_def getRoom_def Let_def)
  apply (rule exI, rule conjI, rule refl)
  apply simp
  done

lemma startGame_registered:
  assumes "rooms w c = Some r"
  shows "\<exists>r'. rooms (startGame c w) = (rooms w)(c \<mapsto> r')
           \<and> state r' = Selection \<and> selectionTimer r' \<noteq> None \<and> revealTimer r' = None"
proof -
  let ?w1 = "storeRoom c (r\<lparr>state := Selection, currentRound := 1\<rparr>) w"
  have "rooms ?w1 c = Some (r\<lparr>state := Selection, currentRound := 1\<rparr>)" by simp
  from startRound_registered [OF this]
  obtain r' where "rooms (startRound c ?w1) = (rooms ?w1)(c \<mapsto> r')"
    and "state r' = Selection" and "selectionTimer r' \<noteq> None" and "revealTimer r' = None"
    by blast
  then show ?thesis
    using assms by (auto simp: startGame_def getRoom_def)
qed

lemma endGame_registered:
  assumes "rooms w c = Some r"
  shows "\<exists>r'. rooms (snd (endGame c w)) = (rooms w)(c \<mapsto> r')
           \<and> state r' = GameOver \<and> selectionTimer r' = None \<and> revealTimer r' = None"
  using assms
  apply (simp add: endGame_def getRoom_def Let_def)
  apply (rule exI, rule conjI, rule refl)
  apply simp
  done

lemma endRound_idle:
  "rooms w c = None \<or> (\<exists>r. rooms w c = Some r \<and> state r \<noteq> Revealing) \<Longrightarrow> endRound c w = w"
  by (auto simp: endRound_def getRoom_def)

lemma endRound_revealing:
  assumes "rooms w c = Some r" and "state r = Revealing"
  shows "\<exists>r'. rooms (endRound c w) = (rooms w)(c \<mapsto> r')
           \<and> revealTimer r' = None
           \<and> (if currentRound r \<ge> maxRounds r
               then state r' = GameOver \<and> selectionTimer r' = None
               else state r' = Selection \<and> selectionTimer r' \<noteq> None)"
proof (cases "currentRound r \<ge> maxRounds r")
  case True
  let ?w1 = "emitRoundEnded c (map (\<lambda>(k, p). (idP p, name p, score p)) (players r))
               (storeRoom c (r\<lparr>revealTimer := None\<rparr>) w)"
  have e: "endRound c w = snd (endGame c ?w1)"
    using assms True by (simp add: endRound_def getRoom_def Let_def)
  have "rooms ?w1 c = Some (r\<lparr>revealTimer := None\<rparr>)" by simp
  from endGame_registered [OF this] show ?thesis
    using True by (auto simp: e)
next
  case False
  let ?w1 = "storeRoom c (r\<lparr>revealTimer := None, currentRound := currentRound r + 1\<rparr>)
               (emitRoundEnded c (map (\<lambda>(k, p). (idP p, name p, score p)) (players r))
                  (storeRoom c (r\<lparr>revealTimer := None\<rparr>) w))"
  have e: "endRound c w = startRound c ?w1"
    using assms False by (simp add: endRound_def getRoom_def Let_def)
  have "rooms ?w1 c = Some (r\<lparr>revealTimer := None, currentRound := currentRound r + 1\<rparr>)"
    by simp
  from startRound_registered [OF this] show ?thesis
    using False by (auto simp: e)
qed

lemma endSelectionPeriod_idle:
  "rooms w c = None \<or> (\<exists>r. rooms w c = Some r \<and> state r \<noteq> Selection)
   \<Longrightarrow> endSelectionPeriod cfg c drawn w = w"
  by (auto simp: endSelectionPeriod_def getRoom_def)

lemma endSelectionPeriod_registered:
  assumes "rooms w c = Some r" and "state r = Selection"
  shows "\<exists>r'. rooms (endSelectionPeriod cfg c drawn w) = (rooms w)(c \<mapsto> r')
           \<and> state r' = Revealing \<and> selectionTimer r' = None \<and> revealTimer r' \<noteq> None"
  using assms
  apply (simp add: endSelectionPeriod_selection getRoom_def)
  apply (rule exI, rule conjI, rule refl)
  apply simp
  done


lemma deadlines_storeRoom:
  "allDeadlinesMatch w \<Longrightarrow> deadlinesMatchPhase r \<Longrightarrow> allDeadlinesMatch (storeRoom c r w)"
  by (simp add: allDeadlinesMatch_def)

lemma deadlines_deleteRoom: "allDeadlinesMatch w \<Longrightarrow> allDeadlinesMatch (deleteRoom c w)"
  by (simp add: allDeadlinesMatch_def)

lemma deadlines_registered:
  "allDeadlinesMatch w \<Longrightarrow> rooms w c = Some r \<Longrightarrow> deadlinesMatchPhase r"
  by (auto simp: allDeadlinesMatch_def)

lemma deadlines_players [simp]:
  "deadlinesMatchPhase (r\<lparr>players := ps\<rparr>) = deadlinesMatchPhase r"
  by (simp add: deadlinesMatchPhase_def)

lemma deadlines_startGame:
  assumes "allDeadlinesMatch w"
  shows "allDeadlinesMatch (startGame c w)"
proof (cases "rooms w c")
  case None
  then show ?thesis using assms by (simp add: startGame_def getRoom_def)
next
  case (Some r)
  from startGame_registered [OF Some] obtain r'
    where "rooms (startGame c w) = (rooms w)(c \<mapsto> r')" and "deadlinesMatchPhase r'"
    by (auto simp: deadlinesMatchPhase_def)
  then show ?thesis using assms by (rule allDeadlinesMatch_update)
qed

lemma deadlines_endRound:
  assumes "allDeadlinesMatch w"
  shows "allDeadlinesMatch (endRound c w)"
proof (cases "\<exists>r. rooms w c = Some r \<and> state r = Revealing")
  case False
  then have "endRound c w = w"
    by (intro endRound_idle) (cases "rooms w c", auto)
  then show ?thesis using assms by simp
next
  case True
  then obtain r where r: "rooms w c = Some r" "state r = Revealing" by blast
  from endRound_revealing [OF r] obtain r'
    where "rooms (endRound c w) = (rooms w)(c \<mapsto> r')" and "deadlinesMatchPhase r'"
    by (auto simp: deadlinesMatchPhase_def split: if_splits)
  then show ?thesis using assms by (rule allDeadlinesMatch_update)
qed

lemma deadlines_endSelectionPeriod:
  assumes "allDeadlinesMatch w"
  shows "allDeadlinesMatch (endSelectionPeriod cfg c drawn w)"
proof (cases "\<exists>r. rooms w c = Some r \<and> state r = Selection")
  case False
  then have "endSelectionPeriod cfg c drawn w = w"
    by (intro endSelectionPeriod_idle) (cases "rooms w c", auto)
  then show ?thesis using assms by simp
next
  case True
  then obtain r where r: "rooms w c = Some r" "state r = Selection" by blast
  from endSelectionPeriod_registered [OF r, of cfg drawn] obtain r'
    where "rooms (endSelectionPeriod cfg c drawn w) = (rooms w)(c \<mapsto> r')"
      and "deadlinesMatchPhase r'"
    by (auto simp: deadlinesMatchPhase_def)
  then show ?thesis using assms by (rule allDeadlinesMatch_update)
qed

lemma deadlines_submitHeight:
  "allDeadlinesMatch w \<Longrightarrow> allDeadlinesMatch (submitHeight c pid h w)"
  by (auto simp: submitHeight_def getRoom_def split: option.splits
      intro!: deadlines_storeRoom dest: deadlines_registered)

lemma deadlines_restartGame_after_game:
  assumes "allDeadlinesMatch w" and "rooms w c = Some r" and "state r = GameOver"
  shows "allDeadlinesMatch (restartGame c w)"
proof -
  have "deadlinesMatchPhase r" using assms(1,2) by (rule deadlines_registered)
  then have "deadlinesMatchPhase
      (r\<lparr>players := forEachPlayer (\<lambda>p. p\<lparr>score := 0, currentHeight := None, isReady := False\<rparr>)
                        (players r),
         currentRound := 0, currentWallHole := None, restartConsents := [],
         state := WaitingReady\<rparr>)"
    using assms(3) by (simp add: deadlinesMatchPhase_def)
  then show ?thesis
    using assms(1,2) by (simp add: restartGame_def getRoom_def deadlines_storeRoom)
qed

lemma deadlines_handleRestartConsent:
  assumes "allDeadlinesMatch w"
  shows "allDeadlinesMatch (handleRestartConsent c pid w)"
proof (cases "\<exists>r. rooms w c = Some r \<and> state r = GameOver")
  case False
  then have "handleRestartConsent c pid w = w"
    by (cases "rooms w c") (auto simp: handleRestartConsent_def getRoom_def)
  then show ?thesis using assms by simp
next
  case True
  then obtain r where r: "rooms w c = Some r" "state r = GameOver" by blast
  let ?r1 = "r\<lparr>restartConsents := setAdd pid (restartConsents r)\<rparr>"
  let ?w1 = "storeRoom c ?r1 w"
  have "deadlinesMatchPhase r" using assms r(1) by (rule deadlines_registered)
  then have "deadlinesMatchPhase ?r1" by (simp add: deadlinesMatchPhase_def)
  then have w1: "allDeadlinesMatch ?w1" using assms by (simp add: deadlines_storeRoom)
  have "rooms ?w1 c = Some ?r1" and "state ?r1 = GameOver" using r(2) by simp_all
  with w1 have "allDeadlinesMatch (restartGame c ?w1)"
    by (rule deadlines_restartGame_after_game)
  then show ?thesis
    using r w1 by (simp add: handleRestartConsent_def getRoom_def Let_def)
qed

lemma deadlines_joinRoom:
  "allDeadlinesMatch w \<Longrightarrow> allDeadlinesMatch (snd (joinRoom c pid sid w))"
  by (auto simp: joinRoom_def Let_def allDeadlinesMatch_def split: option.splits)

lemma deadlines_emptyWorld: "allDeadlinesMatch emptyWorld"
  by (simp add: allDeadlinesMatch_def emptyWorld_def)

lemma deadlines_socketPlayerMap [simp]:
  "allDeadlinesMatch (w\<lparr>socketPlayerMap := m\<rparr>) = allDeadlinesMatch w"
  by (simp add: allDeadlinesMatch_def)

lemma deadlines_emit [simp]: "allDeadlinesMatch (emit e w) = allDeadlinesMatch w"
  by (simp add: allDeadlinesMatch_def)

lemma deadlines_emitToRoom [simp]:
  "allDeadlinesMatch (emitToRoom c ev pl w) = allDeadlinesMatch w"
  by (simp add: allDeadlinesMatch_def)

lemma deadlines_emitPlayerListUpdate [simp]:
  "allDeadlinesMatch (emitPlayerListUpdate c w) = allDeadlinesMatch w"
  by (simp add: allDeadlinesMatch_def)

lemma deadlines_emitRoomState [simp]:
  "allDeadlinesMatch (emitRoomState client c w) = allDeadlinesMatch w"
  by (simp add: allDeadlinesMatch_def)

lemma deadlines_emitRoundStarted [simp]:
  "allDeadlinesMatch (emitRoundStarted c w) = allDeadlinesMatch w"
  by (simp add: allDeadlinesMatch_def)

lemma deadlines_roomError [simp]:
  "allDeadlinesMatch (roomError client msg w) = allDeadlinesMatch w"
  by (simp add: allDeadlinesMatch_def)

lemma deadlines_forgetSocket [simp]:
  "allDeadlinesMatch (forgetSocket client w) = allDeadlinesMatch w"
  by (simp add: allDeadlinesMatch_def)

lemma deadlines_newRoom: "deadlinesMatchPhase (newRoom cfg c)"
  by (simp add: deadlinesMatchPhase_def newRoom_def)

lemma deadlines_handleCreateRoom:
  assumes "allDeadlinesMatch w" and "handleCreateRoom cfg client pid draws w = Some w'"
  shows "allDeadlinesMatch w'"
proof -
  from assms(2) obtain c w1 where c: "createRoom cfg draws w = Some (c, w1)"
    by (auto simp: handleCreateRoom_def split: option.splits)
  then have "w1 = storeRoom c (newRoom cfg c) w"
    by (auto simp: createRoom_def split: list.splits)
  then have "allDeadlinesMatch w1"
    using assms(1) by (simp add: deadlines_storeRoom deadlines_newRoom)
  then have "allDeadlinesMatch (snd (joinRoom c pid client w1))"
    by (rule deadlines_joinRoom)
  then show ?thesis
    using assms(2) c
    by (auto simp: handleCreateRoom_def Let_def split: prod.splits if_splits)
qed

lemma deadlines_handleJoinRoom:
  assumes "allDeadlinesMatch w"
  shows "allDeadlinesMatch (handleJoinRoom c client pid w)"
  using deadlines_joinRoom [OF assms, of c pid client] assms
  by (auto simp: handleJoinRoom_def Let_def split: option.splits prod.splits)

lemma getRoomByPlayerId_registered:
  "getRoomByPlayerId w pid = Some r \<Longrightarrow> \<exists>c. rooms w c = Some r"
  by (auto simp: getRoomByPlayerId_def split: option.splits)

lemma deadlines_of_player_room:
  "allDeadlinesMatch w \<Longrightarrow> getRoomByPlayerId w pid = Some r \<Longrightarrow> deadlinesMatchPhase r"
  by (auto dest!: getRoomByPlayerId_registered dest: deadlines_registered)

lemma deadlines_handleSetPlayerName:
  assumes "allDeadlinesMatch w"
  shows "allDeadlinesMatch (handleSetPlayerName nm client w)"
  using assms
  by (auto simp: handleSetPlayerName_def Let_def split: option.splits
      intro!: deadlines_storeRoom intro: deadlines_of_player_room)

lemma deadlines_handleSelectHeight:
  assumes "allDeadlinesMatch w"
  shows "allDeadlinesMatch (handleSelectHeight h client w)"
  using assms
  by (auto simp: handleSelectHeight_def Let_def deadlines_submitHeight split: option.splits)

lemma deadlines_handleRestartConsentGw:
  assumes "allDeadlinesMatch w"
  shows "allDeadlinesMatch (handleRestartConsentGw client w)"
  using deadlines_handleRestartConsent [OF assms]
  by (auto simp: handleRestartConsentGw_def Let_def assms split: option.splits)

lemma deadlines_handleDisconnect:
  assumes "allDeadlinesMatch w"
  shows "allDeadlinesMatch (handleDisconnect client w)"
proof (cases "lookupId (socketPlayerMap w) client")
  case None
  then show ?thesis using assms by (simp add: handleDisconnect_def)
next
  case pid: (Some pid)
  show ?thesis
  proof (cases "getRoomByPlayerId w pid")
    case None
    then show ?thesis using assms pid by (simp add: handleDisconnect_def)
  next
    case room: (Some room)
    with assms have ok: "deadlinesMatchPhase room" by (rule deadlines_of_player_room)
    show ?thesis
    proof (cases "map_of (players room) pid")
      case None
      then show ?thesis using assms pid room by (simp add: handleDisconnect_def)
    next
      case (Some player)
      then show ?thesis
        using assms pid room ok
        by (simp add: handleDisconnect_def Let_def deadlines_storeRoom deadlines_deleteRoom)
    qed
  qed
qed

lemma deadlines_handlePlayerReady:
  assumes "allDeadlinesMatch w"
  shows "allDeadlinesMatch (handlePlayerReady client w)"
proof -
  {
    fix pid room
    assume room: "getRoomByPlayerId w pid = Some room"
    let ?room1 = "room\<lparr>players := AList.map_entry pid (\<lambda>p. p\<lparr>isReady := True\<rparr>) (players room)\<rparr>"
    let ?room2 = "if state ?room1 = Lobby then ?room1\<lparr>state := WaitingReady\<rparr> else ?room1"
    let ?w1 = "emitPlayerListUpdate (code room) (storeRoom (code room) ?room2 w)"
    from assms room have "deadlinesMatchPhase room" by (rule deadlines_of_player_room)
    then have "deadlinesMatchPhase ?room2"
      by (auto simp: deadlinesMatchPhase_def)
    then have w1: "allDeadlinesMatch ?w1"
      using assms by (simp add: deadlines_storeRoom)
    then have "allDeadlinesMatch (startGame (code room) ?w1)"
      by (rule deadlines_startGame)
    note w1 this
  }
  then show ?thesis
    using assms
    by (simp add: handlePlayerReady_def Let_def split: option.splits)
qed

lemma reachable_deadlines: "reachable cfg w \<Longrightarrow> allDeadlinesMatch w"
proof (induction rule: reachable.induct)
  case start
  show ?case by (rule deadlines_emptyWorld)
next
  case (create w client pid draws w')
  then show ?case by (auto intro: deadlines_handleCreateRoom)
next
  case (join w roomCode client pid)
  then show ?case by (simp add: deadlines_handleJoinRoom)
next
  case (set_name w nm client)
  then show ?case by (simp add: deadlines_handleSetPlayerName)
next
  case (ready w client)
  then show ?case by (simp add: deadlines_handlePlayerReady)
next
  case (select w height client)
  then show ?case by (simp add: deadlines_handleSelectHeight)
next
  case (consent w client)
  then show ?case by (simp add: deadlines_handleRestartConsentGw)
next
  case (disconnect w client)
  then show ?case by (simp add: deadlines_handleDisconnect)
next
  case (selection_deadline w c room roomCode delay drawn)
  then show ?case by (simp add: deadlines_endSelectionPeriod)
next
  case (reveal_deadline w c room roomCode delay)
  then show ?case by (simp add: deadlines_endRound)
qed


text \<open>
  Claim C4. In every reachable server state, every registered room has at most one of its
  two deadline handles armed; the selection deadline is armed exactly when the phase is
  selection and the reveal deadline exactly when the phase is revealing. When the selection
  deadline of such a room elapses, the selection handle is disarmed and the reveal handle
  armed; when its reveal deadline elapses, the reveal handle is disarmed and either the
  selection handle is armed for the next round or, after the last round, no handle is
  armed and the phase is game-over.
\<close>

theorem deadlines_match_phase:
  assumes "reachable cfg w" and "rooms w c = Some room"
  shows "\<not> (selectionTimer room \<noteq> None \<and> revealTimer room \<noteq> None)
       \<and> (selectionTimer room \<noteq> None \<longleftrightarrow> state room = Selection)
       \<and> (revealTimer room \<noteq> None \<longleftrightarrow> state room = Revealing)
       \<and> (state room = Selection \<longrightarrow>
            (\<exists>r'. rooms (endSelectionPeriod cfg c drawn w) c = Some r'
               \<and> state r' = Revealing \<and> selectionTimer r' = None \<and> revealTimer r' \<noteq> None))
       \<and> (state room = Revealing \<longrightarrow>
            (\<exists>r'. rooms (endRound c w) c = Some r'
               \<and> revealTimer r' = None
               \<and> (if currentRound room \<ge> maxRounds room
                   then state r' = GameOver \<and> selectionTimer r' = None
                   else state r' = Selection \<and> selectionTimer r' \<noteq> None)))"
proof -
  have "allDeadlinesMatch w" using assms(1) by (rule reachable_deadlines)
  then have ok: "deadlinesMatchPhase room" using assms(2) by (rule deadlines_registered)
  have one: "\<not> (selectionTimer room \<noteq> None \<and> revealTimer room \<noteq> None)"
    using ok by (auto simp: deadlinesMatchPhase_def)
  have sel: "selectionTimer room \<noteq> None \<longleftrightarrow> state room = Selection"
    and rev: "revealTimer room \<noteq> None \<longleftrightarrow> state room = Revealing"
    using ok by (simp_all add: deadlinesMatchPhase_def)
  have t1: "state room = Selection \<longrightarrow>
      (\<exists>r'. rooms (endSelectionPeriod cfg c drawn w) c = Some r'
         \<and> state r' = Revealing \<and> selectionTimer r' = None \<and> revealTimer r' \<noteq> None)"
  proof
    assume "state room = Selection"
    with assms(2) obtain r' where "rooms (endSelectionPeriod cfg c drawn w) = (rooms w)(c \<mapsto> r')"
      and "state r' = Revealing \<and> selectionTimer r' = None \<and> revealTimer r' \<noteq> None"
      using endSelectionPeriod_registered [of w c room cfg drawn] by blast
    then show "\<exists>r'. rooms (endSelectionPeriod cfg c drawn w) c = Some r'
         \<and> state r' = Revealing \<and> selectionTimer r' = None \<and> revealTimer r' \<noteq> None"
      by simp
  qed
  have t2: "state room = Revealing \<longrightarrow>
      (\<exists>r'. rooms (endRound c w) c = Some r'
         \<and> revealTimer r' = None
         \<and> (if currentRound room \<ge> maxRounds room
             then state r' = GameOver \<and> selectionTimer r' = None
             else state r' = Selection \<and> selectionTimer r' \<noteq> None))"
  proof
    assume "state room = Revealing"
    with assms(2) obtain r' where "rooms (endRound c w) = (rooms w)(c \<mapsto> r')"
      and "revealTimer r' = None
         \<and> (if currentRound room \<ge> maxRounds room
             then state r' = GameOver \<and> selectionTimer r' = None
             else state r' = Selection \<and> selectionTimer r' \<noteq> None)"
      using endRound_revealing [of w c room] by blast
    then show "\<exists>r'. rooms (endRound c w) c = Some r'
         \<and> revealTimer r' = None
         \<and> (if currentRound room \<ge> maxRounds room
             then state r' = GameOver \<and> selectionTimer r' = None
             else state r' = Selection \<and> selectionTimer r' \<noteq> None)"
      by simp
  qed
  show ?thesis using one sel rev t1 t2 by blast
qed

lemma createdWorld_created:
  "handleCreateRoom defaultConfig ''s1'' ''p1'' [''ABC123''] emptyWorld = Some createdWorld"
  by (simp add: createdWorld_def handleCreateRoom_def createRoom_def joinRoom_def newRoom_def
      newPlayer_def storeRoom_def emit_def emitRoomState_def getRoom_def playerViews_def
      emptyWorld_def defaultConfig_def Let_def)

lemma startedWorld_room:
  "\<exists>r. rooms startedWorld ''ABC123'' = Some r \<and> state r = Selection \<and> currentRound r = 1
     \<and> selectionTimer r = Some (Timeout (EndSelectionPeriodCb ''ABC123'') 15000)
     \<and> revealTimer r = None"
  by (simp add: startedWorld_def handlePlayerReady_def handleSetPlayerName_def
      lookupId_def getRoomByPlayerId_def trim_def isWhiteSpace_def
      checkAllPlayersReady_def startGame_def startRound_def forEachPlayer_def
      emitPlayerListUpdate_def emitRoundStarted_def emitToRoom_def
      createdWorld_def handleCreateRoom_def createRoom_def joinRoom_def newRoom_def
      newPlayer_def storeRoom_def emit_def emitRoomState_def getRoom_def playerViews_def
      emptyWorld_def defaultConfig_def Let_def)

lemma startedWorld_reachable: "reachable defaultConfig startedWorld"
  unfolding startedWorld_def
  by (intro reachable.ready reachable.set_name reachable.create [OF reachable.start createdWorld_created])

lemma revealedWorld_reachable: "reachable defaultConfig revealedWorld"
proof -
  from startedWorld_room obtain r where "rooms startedWorld ''ABC123'' = Some r"
    and "selectionTimer r = Some (Timeout (EndSelectionPeriodCb ''ABC123'') 15000)"
    by blast
  then show ?thesis
    unfolding revealedWorld_def
    by (intro reachable.selection_deadline [OF startedWorld_reachable]) simp_all
qed

text \<open>
  After Ana has created a room, set her name and marked ready, the game is in its first
  selection phase with the selection deadline armed and the reveal deadline not; after the
  selection deadline has fired, the room is revealing with only the reveal deadline armed.
\<close>

theorem deadlines_match_phase_witness:
  "reachable defaultConfig startedWorld
   \<and> (\<exists>r. rooms startedWorld ''ABC123'' = Some r \<and> state r = Selection
         \<and> selectionTimer r = Some (Timeout (EndSelectionPeriodCb ''ABC123'') 15000)
         \<and> revealTimer r = None)
   \<and> reachable defaultConfig revealedWorld
   \<and> (\<exists>r. rooms revealedWorld ''ABC123'' = Some r \<and> state r = Revealing
         \<and> selectionTimer r = None \<and> revealTimer r \<noteq> None)"
proof -
  from startedWorld_room obtain r where r: "rooms startedWorld ''ABC123'' = Some r"
    and s: "state r = Selection"
    and t: "selectionTimer r = Some (Timeout (EndSelectionPeriodCb ''ABC123'') 15000)"
    by blast
  from deadlines_match_phase [OF startedWorld_reachable r, of 7] s t
  have a: "revealTimer r = None"
    and b: "\<exists>r'. rooms revealedWorld ''ABC123'' = Some r' \<and> state r' = Revealing
         \<and> selectionTimer r' = None \<and> revealTimer r' \<noteq> None"
    unfolding revealedWorld_def by auto
  show ?thesis
    using startedWorld_reachable revealedWorld_reachable r s t a b by blast
qed

section \<open>Marking ready after the game\<close>

lemma startRound_maps [simp]:
  "socketPlayerMap (startRound c w) = socketPlayerMap w"
  "playerRoomMap (startRound c w) = playerRoomMap w"
  by (simp_all add: startRound_def getRoom_def storeRoom_def emitRoundStarted_def emitToRoom_def
      emit_def Let_def split: option.splits)

lemma endRound_maps [simp]:
  "socketPlayerMap (endRound c w) = socketPlayerMap w"
  "playerRoomMap (endRound c w) = playerRoomMap w"
  by (simp_all add: endRound_def endGame_def getRoom_def storeRoom_def emitRoundEnded_def
      emitGameEnded_def emitToRoom_def emit_def Let_def split: option.splits)

lemma endSelectionPeriod_maps [simp]:
  "socketPlayerMap (endSelectionPeriod cfg c drawn w) = socketPlayerMap w"
  "playerRoomMap (endSelectionPeriod cfg c drawn w) = playerRoomMap w"
  by (simp_all add: endSelectionPeriod_def calculateResults_def getRoom_def storeRoom_def
      emitSelectionLocked_def emitWallRevealed_def emitToRoom_def emit_def Let_def
      split: option.splits)

lemma startRound_room:
  assumes "rooms w c = Some r"
  shows "rooms (startRound c w) c =
     Some (r\<lparr>selectionTimer := Some (Timeout (EndSelectionPeriodCb c) (selectionDuration r * 1000)),
             revealTimer := None,
             players := forEachPlayer (\<lambda>p. p\<lparr>currentHeight := None\<rparr>) (players r),
             currentWallHole := None, state := Selection\<rparr>)"
  using assms by (simp add: startRound_def getRoom_def Let_def)

lemma endRound_next_round:
  assumes "rooms w c = Some r" and "state r = Revealing" and "currentRound r < maxRounds r"
  shows "rooms (endRound c w) c =
     Some (r\<lparr>selectionTimer := Some (Timeout (EndSelectionPeriodCb c) (selectionDuration r * 1000)),
             revealTimer := None,
             players := forEachPlayer (\<lambda>p. p\<lparr>currentHeight := None\<rparr>) (players r),
             currentWallHole := None, state := Selection,
             currentRound := currentRound r + 1\<rparr>)"
proof -
  let ?w1 = "storeRoom c (r\<lparr>revealTimer := None, currentRound := currentRound r + 1\<rparr>)
               (emitRoundEnded c (map (\<lambda>(k, p). (idP p, name p, score p)) (players r))
                  (storeRoom c (r\<lparr>revealTimer := None\<rparr>) w))"
  have e: "endRound c w = startRound c ?w1"
    using assms by (simp add: endRound_def getRoom_def Let_def)
  have "rooms ?w1 c = Some (r\<lparr>revealTimer := None, currentRound := currentRound r + 1\<rparr>)"
    by simp
  from startRound_room [OF this] show ?thesis
    unfolding e by simp
qed

lemma endRound_last_round:
  assumes "rooms w c = Some r" and "state r = Revealing" and "currentRound r \<ge> maxRounds r"
  shows "rooms (endRound c w) c =
     Some (r\<lparr>selectionTimer := None, revealTimer := None, state := GameOver\<rparr>)"
  using assms by (simp add: endRound_def endGame_def getRoom_def Let_def)

lemma anaPlaysAlone_reveal:
  assumes "anaPlaysAlone Selection n w"
  shows "anaPlaysAlone Revealing n (endSelectionPeriod defaultConfig ''ABC123'' 7 w)"
proof -
  from assms obtain r p where r: "rooms w ''ABC123'' = Some r" "state r = Selection"
    and rest: "code r = ''ABC123''" "currentRound r = n" "maxRounds r = 10" "restartConsents r = []"
      "revealTimer r = None" "players r = [(''p1'', p)]" "name p = ''Ana''" "isReady p"
      "isConnected p"
    and maps: "socketPlayerMap w ''s1'' = Some ''p1''" "playerRoomMap w ''p1'' = Some ''ABC123''"
    by (auto simp: anaPlaysAlone_def)
  have g: "getRoom w ''ABC123'' = Some r" using r(1) by (simp add: getRoom_def)
  show ?thesis
    using rest maps
    by (simp add: anaPlaysAlone_def endSelectionPeriod_selection [OF g r(2)] forEachPlayer_def
        addPoints_def assignDefault_def)
qed

lemma anaPlaysAlone_next:
  assumes "anaPlaysAlone Revealing n w" and "n < 10"
  shows "anaPlaysAlone Selection (n + 1) (endRound ''ABC123'' w)"
proof -
  from assms(1) obtain r p where r: "rooms w ''ABC123'' = Some r" "state r = Revealing"
    and rest: "code r = ''ABC123''" "currentRound r = n" "maxRounds r = 10" "restartConsents r = []"
      "players r = [(''p1'', p)]" "name p = ''Ana''" "isReady p" "isConnected p"
    and maps: "socketPlayerMap w ''s1'' = Some ''p1''" "playerRoomMap w ''p1'' = Some ''ABC123''"
    by (auto simp: anaPlaysAlone_def)
  have lt: "currentRound r < maxRounds r" using rest assms(2) by simp
  show ?thesis
    using rest maps
    by (simp add: anaPlaysAlone_def endRound_next_round [OF r lt] forEachPlayer_def)
qed

lemma anaPlaysAlone_over:
  assumes "anaPlaysAlone Revealing 10 w"
  shows "anaPlaysAlone GameOver 10 (endRound ''ABC123'' w)"
proof -
  from assms(1) obtain r p where r: "rooms w ''ABC123'' = Some r" "state r = Revealing"
    and rest: "code r = ''ABC123''" "currentRound r = 10" "maxRounds r = 10" "restartConsents r = []"
      "players r = [(''p1'', p)]" "name p = ''Ana''" "isReady p" "isConnected p"
    and maps: "socketPlayerMap w ''s1'' = Some ''p1''" "playerRoomMap w ''p1'' = Some ''ABC123''"
    by (auto simp: anaPlaysAlone_def)
  have ge: "currentRound r \<ge> maxRounds r" using rest by simp
  show ?thesis
    using rest maps
    by (simp add: anaPlaysAlone_def endRound_last_round [OF r ge])
qed

lemma anaPlaysAlone_reachable_reveal:
  assumes "reachable defaultConfig w" and "anaPlaysAlone Selection n w"
  shows "reachable defaultConfig (endSelectionPeriod defaultConfig ''ABC123'' 7 w)"
proof -
  from assms(2) obtain r where "rooms w ''ABC123'' = Some r"
    and "selectionTimer r = Some (Timeout (EndSelectionPeriodCb ''ABC123'') (selectionDuration r * 1000))"
    by (auto simp: anaPlaysAlone_def)
  then show ?thesis
    by (intro reachable.selection_deadline [OF assms(1)]) simp_all
qed

lemma anaPlaysAlone_reachable_end:
  assumes "reachable defaultConfig w" and "anaPlaysAlone Revealing n w"
  shows "reachable defaultConfig (endRound ''ABC123'' w)"
proof -
  from assms(2) obtain r where "rooms w ''ABC123'' = Some r"
    and "revealTimer r = Some (Timeout (EndRoundCb ''ABC123'') (revealDuration r * 1000))"
    by (auto simp: anaPlaysAlone_def)
  then show ?thesis
    by (intro reachable.reveal_deadline [OF assms(1)]) simp_all
qed

lemma startedWorld_alone: "anaPlaysAlone Selection 1 startedWorld"
  by (simp add: anaPlaysAlone_def startedWorld_def handlePlayerReady_def handleSetPlayerName_def
      lookupId_def getRoomByPlayerId_def trim_def isWhiteSpace_def
      checkAllPlayersReady_def startGame_def startRound_def forEachPlayer_def
      emitPlayerListUpdate_def emitRoundStarted_def emitToRoom_def
      createdWorld_def handleCreateRoom_def createRoom_def joinRoom_def newRoom_def
      newPlayer_def storeRoom_def emit_def emitRoomState_def getRoom_def playerViews_def
      emptyWorld_def defaultConfig_def Let_def)

lemma rounds_played:
  "n < 10 \<Longrightarrow> reachable defaultConfig ((playRound ^^ n) startedWorld)
     \<and> anaPlaysAlone Selection (int n + 1) ((playRound ^^ n) startedWorld)"
proof (induction n)
  case 0
  show ?case using startedWorld_reachable startedWorld_alone by simp
next
  case (Suc n)
  let ?w = "(playRound ^^ n) startedWorld"
  let ?w1 = "endSelectionPeriod defaultConfig ''ABC123'' 7 ?w"
  from Suc have reach: "reachable defaultConfig ?w"
    and alone: "anaPlaysAlone Selection (int n + 1) ?w"
    by simp_all
  have r1: "reachable defaultConfig ?w1"
    using reach alone by (rule anaPlaysAlone_reachable_reveal)
  have a1: "anaPlaysAlone Revealing (int n + 1) ?w1"
    using alone by (rule anaPlaysAlone_reveal)
  have r2: "reachable defaultConfig (endRound ''ABC123'' ?w1)"
    using r1 a1 by (rule anaPlaysAlone_reachable_end)
  have a2: "anaPlaysAlone Selection (int n + 1 + 1) (endRound ''ABC123'' ?w1)"
    using a1 Suc.prems by (intro anaPlaysAlone_next) simp_all
  have step: "(playRound ^^ Suc n) startedWorld = endRound ''ABC123'' ?w1"
    by (simp only: funpow.simps comp_apply playRound_def [of ?w])
  show ?case
    unfolding step using r2 a2 by (simp add: add.commute)
qed

lemma finishedWorld_reachable:
  "reachable defaultConfig finishedWorld \<and> anaPlaysAlone GameOver 10 finishedWorld"
proof -
  let ?w = "(playRound ^^ 9) startedWorld"
  let ?w1 = "endSelectionPeriod defaultConfig ''ABC123'' 7 ?w"
  have "(10::nat) = Suc 9" by simp
  then have fin: "finishedWorld = endRound ''ABC123'' ?w1"
    by (simp only: finishedWorld_def funpow.simps comp_apply playRound_def [of ?w])
  from rounds_played [of 9] have reach: "reachable defaultConfig ?w"
    and alone: "anaPlaysAlone Selection 10 ?w"
    by simp_all
  have r1: "reachable defaultConfig ?w1"
    using reach alone by (rule anaPlaysAlone_reachable_reveal)
  have a1: "anaPlaysAlone Revealing 10 ?w1"
    using alone by (rule anaPlaysAlone_reveal)
  have "reachable defaultConfig (endRound ''ABC123'' ?w1)"
    using r1 a1 by (rule anaPlaysAlone_reachable_end)
  moreover have "anaPlaysAlone GameOver 10 (endRound ''ABC123'' ?w1)"
    using a1 by (rule anaPlaysAlone_over)
  ultimately show ?thesis by (simp add: fin)
qed

lemma ready_after_solo_game:
  assumes "anaPlaysAlone GameOver n w"
  shows "\<exists>r. rooms (handlePlayerReady ''s1'' w) ''ABC123'' = Some r
           \<and> state r = Selection \<and> currentRound r = 1 \<and> restartConsents r = []
           \<and> selectionTimer r \<noteq> None"
proof -
  from assms obtain r p where r: "rooms w ''ABC123'' = Some r" "state r = GameOver"
    and rest: "code r = ''ABC123''" "restartConsents r = []"
      "players r = [(''p1'', p)]" "name p = ''Ana''" "isReady p" "isConnected p"
    and maps: "socketPlayerMap w ''s1'' = Some ''p1''" "playerRoomMap w ''p1'' = Some ''ABC123''"
    by (auto simp: anaPlaysAlone_def)
  show ?thesis
    using r rest maps
    by (simp add: handlePlayerReady_def lookupId_def getRoomByPlayerId_def trim_def
        isWhiteSpace_def checkAllPlayersReady_def startGame_def startRound_def
        emitPlayerListUpdate_def emitRoundStarted_def emitToRoom_def storeRoom_def emit_def
        getRoom_def Let_def)
qed

text \<open>
  With two players the scores survive as well: after a finished game of Ana and Ben, both
  still flagged ready, Ana's \<^verbatim>\<open>player-ready\<close> in phase game-over starts round 1 of a game
  in which the scores 5 and 20 of the finished game are kept.
\<close>

lemma ready_after_game_keeps_scores:
  "getRoomByPlayerId gameOverWorld ''p1'' = Some gameOverRoom
   \<and> state gameOverRoom = GameOver
   \<and> restartConsents gameOverRoom = []
   \<and> map_option (\<lambda>r. (state r, currentRound r, map (\<lambda>(k, p). score p) (players r),
                       restartConsents r, selectionTimer r))
        (rooms (handlePlayerReady ''s1'' gameOverWorld) ''ABC123'')
     = Some (Selection, 1, [5, 20], [], Some (Timeout (EndSelectionPeriodCb ''ABC123'') 15000))"
  by (simp add: handlePlayerReady_def lookupId_def getRoomByPlayerId_def trim_def isWhiteSpace_def
      checkAllPlayersReady_def startGame_def startRound_def forEachPlayer_def
      emitPlayerListUpdate_def emitRoundStarted_def emitToRoom_def
      storeRoom_def emit_def getRoom_def playerViews_def Let_def
      gameOverWorld_def sampleWorld_def gameOverRoom_def sampleRoom_def
      ana_def ben_def samplePlayer_def)

text \<open>
  Claim C1. The second half of the claim fails on the code. Ana creates a room, sets her
  name, marks ready and plays the ten rounds alone; the room is then in phase game-over
  with no restart consent, and Ana is still flagged ready, since nothing clears the flag
  when a game starts or ends. She sends \<^verbatim>\<open>player-ready\<close>: the handler does not look at the
  phase, finds every connected player ready and starts a game, so the phase goes from
  game-over to selection at round 1, with the selection deadline armed and still no
  restart consent.
\<close>

theorem ready_in_game_over_starts_game:
  "reachable defaultConfig finishedWorld
   \<and> (\<exists>r. rooms finishedWorld ''ABC123'' = Some r \<and> state r = GameOver
         \<and> restartConsents r = [])
   \<and> (\<exists>r. rooms (handlePlayerReady ''s1'' finishedWorld) ''ABC123'' = Some r
         \<and> state r = Selection \<and> currentRound r = 1 \<and> restartConsents r = []
         \<and> selectionTimer r \<noteq> None)"
proof -
  have reach: "reachable defaultConfig finishedWorld"
    and over: "anaPlaysAlone GameOver 10 finishedWorld"
    using finishedWorld_reachable by simp_all
  from over have "\<exists>r. rooms finishedWorld ''ABC123'' = Some r \<and> state r = GameOver
         \<and> restartConsents r = []"
    by (auto simp: anaPlaysAlone_def)
  then show ?thesis
    using reach ready_after_solo_game [OF over] by blast
qed

section \<open>A game of three\<close>

lemma trioStartedWorld_value:
  "\<exists>es. trioStartedWorld =
   \<lparr> rooms = [''ABC123'' \<mapsto>
       \<lparr> code = ''ABC123'',
         players =
          [(''p1'', \<lparr> idP = ''p1'', socketId = ''s1'', name = ''Ana'', isReady = True, isHost = True, score = 0, currentHeight = None, isConnected = True \<rparr>),
           (''p2'', \<lparr> idP = ''p2'', socketId = ''s2'', name = ''Ben'', isReady = True, isHost = False, score = 0, currentHeight = None, isConnected = True \<rparr>),
           (''p3'', \<lparr> idP = ''p3'', socketId = ''s3'', name = ''Cleo'', isReady = True, isHost = False, score = 0, currentHeight = None, isConnected = True \<rparr>)],
         state = Selection, currentRound = 1, maxRounds = 10, selectionTimer = Some (Timeout (EndSelectionPeriodCb ''ABC123'') 15000),
         revealTimer = None, selectionDuration = 15, revealDuration = 5,
         currentWallHole = None, restartConsents = [] \<rparr>],
     playerRoomMap = [''p1'' \<mapsto> ''ABC123'', ''p2'' \<mapsto> ''ABC123'', ''p3'' \<mapsto> ''ABC123''],
     socketPlayerMap = [''s1'' \<mapsto> ''p1'', ''s2'' \<mapsto> ''p2'', ''s3'' \<mapsto> ''p3''],
     emitted = es \<rparr>"
proof -
  let ?w1 = "createdWorld"
  have "\<exists>es. ?w1 =
   \<lparr> rooms = [''ABC123'' \<mapsto>
       \<lparr> code = ''ABC123'',
         players =
          [(''p1'', \<lparr> idP = ''p1'', socketId = ''s1'', name = [], isReady = False, isHost = True, score = 0, currentHeight = None, isConnected = True \<rparr>)],
         state = Lobby, currentRound = 0, maxRounds = 10, selectionTimer = None,
         revealTimer = None, selectionDuration = 15, revealDuration = 5,
         currentWallHole = None, restartConsents = [] \<rparr>],
     playerRoomMap = [''p1'' \<mapsto> ''ABC123''],
     socketPlayerMap = [''s1'' \<mapsto> ''p1''],
     emitted = es \<rparr>"
    by (simp add: createdWorld_def handleCreateRoom_def createRoom_def joinRoom_def newRoom_def
        newPlayer_def storeRoom_def emit_def emitRoomState_def getRoom_def emptyWorld_def
        defaultConfig_def Let_def)
  then obtain e1 where w1: "?w1 =
   \<lparr> rooms = [''ABC123'' \<mapsto>
       \<lparr> code = ''ABC123'',
         players =
          [(''p1'', \<lparr> idP = ''p1'', socketId = ''s1'', name = [], isReady = False, isHost = True, score = 0, currentHeight = None, isConnected = True \<rparr>)],
         state = Lobby, currentRound = 0, maxRounds = 10, selectionTimer = None,
         revealTimer = None, selectionDuration = 15, revealDuration = 5,
         currentWallHole = None, restartConsents = [] \<rparr>],
     playerRoomMap = [''p1'' \<mapsto> ''ABC123''],
     socketPlayerMap = [''s1'' \<mapsto> ''p1''],
     emitted = e1 \<rparr>"
    by blast
  let ?w2 = "handleJoinRoom ''ABC123'' ''s2'' ''p2'' ?w1"
  have "\<exists>es. ?w2 =
   \<lparr> rooms = [''ABC123'' \<mapsto>
       \<lparr> code = ''ABC123'',
         players =
          [(''p1'', \<lparr> idP = ''p1'', socketId = ''s1'', name = [], isReady = False, isHost = True, score = 0, currentHeight = None, isConnected = True \<rparr>),
           (''p2'', \<lparr> idP = ''p2'', socketId = ''s2'', name = [], isReady = False, isHost = False, score = 0, currentHeight = None, isConnected = True \<rparr>)],
         state = Lobby, currentRound = 0, maxRounds = 10, selectionTimer = None,
         revealTimer = None, selectionDuration = 15, revealDuration = 5,
         currentWallHole = None, restartConsents = [] \<rparr>],
     playerRoomMap = [''p1'' \<mapsto> ''ABC123'', ''p2'' \<mapsto> ''ABC123''],
     socketPlayerMap = [''s1'' \<mapsto> ''p1'', ''s2'' \<mapsto> ''p2''],
     emitted = es \<rparr>"
    unfolding w1
    by (simp add: handleJoinRoom_def joinRoom_def newPlayer_def storeRoom_def emit_def emitRoomState_def
        emitPlayerListUpdate_def emitToRoom_def getRoom_def Let_def)
  then obtain e2 where w2: "?w2 =
   \<lparr> rooms = [''ABC123'' \<mapsto>
       \<lparr> code = ''ABC123'',
         players =
          [(''p1'', \<lparr> idP = ''p1'', socketId = ''s1'', name = [], isReady = False, isHost = True, score = 0, currentHeight = None, isConnected = True \<rparr>),
           (''p2'', \<lparr> idP = ''p2'', socketId = ''s2'', name = [], isReady = False, isHost = False, score = 0, currentHeight = None, isConnected = True \<rparr>)],
         state = Lobby, currentRound = 0, maxRounds = 10, selectionTimer = None,
         revealTimer = None, selectionDuration = 15, revealDuration = 5,
         currentWallHole = None, restartConsents = [] \<rparr>],
     playerRoomMap = [''p1'' \<mapsto> ''ABC123'', ''p2'' \<mapsto> ''ABC123''],
     socketPlayerMap = [''s1'' \<mapsto> ''p1'', ''s2'' \<mapsto> ''p2''],
     emitted = e2 \<rparr>"
    by blast
  let ?w3 = "handleJoinRoom ''ABC123'' ''s3'' ''p3'' ?w2"
  have "\<exists>es. ?w3 =
   \<lparr> rooms = [''ABC123'' \<mapsto>
       \<lparr> code = ''ABC123'',
         players =
          [(''p1'', \<lparr> idP = ''p1'', socketId = ''s1'', name = [], isReady = False, isHost = True, score = 0, currentHeight = None, isConnected = True \<rparr>),
           (''p2'', \<lparr> idP = ''p2'', socketId = ''s2'', name = [], isReady = False, isHost = False, score = 0, currentHeight = None, isConnected = True \<rparr>),
           (''p3'', \<lparr> idP = ''p3'', socketId = ''s3'', name = [], isReady = False, isHost = False, score = 0, currentHeight = None, isConnected = True \<rparr>)],
         state = Lobby, currentRound = 0, maxRounds = 10, selectionTimer = None,
         revealTimer = None, selectionDuration = 15, revealDuration = 5,
         currentWallHole = None, restartConsents = [] \<rparr>],
     playerRoomMap = [''p1'' \<mapsto> ''ABC123'', ''p2'' \<mapsto> ''ABC123'', ''p3'' \<mapsto> ''ABC123''],
     socketPlayerMap = [''s1'' \<mapsto> ''p1'', ''s2'' \<mapsto> ''p2'', ''s3'' \<mapsto> ''p3''],
     emitted = es \<rparr>"
    unfolding w2
    by (simp add: handleJoinRoom_def joinRoom_def newPlayer_def storeRoom_def emit_def emitRoomState_def
        emitPlayerListUpdate_def emitToRoom_def getRoom_def Let_def)
  then obtain e3 where w3: "?w3 =
   \<lparr> rooms = [''ABC123'' \<mapsto>
       \<lparr> code = ''ABC123'',
         players =
          [(''p1'', \<lparr> idP = ''p1'', socketId = ''s1'', name = [], isReady = False, isHost = True, score = 0, currentHeight = None, isConnected = True \<rparr>),
           (''p2'', \<lparr> idP = ''p2'', socketId = ''s2'', name = [], isReady = False, isHost = False, score = 0, currentHeight = None, isConnected = True \<rparr>),
           (''p3'', \<lparr> idP = ''p3'', socketId = ''s3'', name = [], isReady = False, isHost = False, score = 0, currentHeight = None, isConnected = True \<rparr>)],
         state = Lobby, currentRound = 0, maxRounds = 10, selectionTimer = None,
         revealTimer = None, selectionDuration = 15, revealDuration = 5,
         currentWallHole = None, restartConsents = [] \<rparr>],
     playerRoomMap = [''p1'' \<mapsto> ''ABC123'', ''p2'' \<mapsto> ''ABC123'', ''p3'' \<mapsto> ''ABC123''],
     socketPlayerMap = [''s1'' \<mapsto> ''p1'', ''s2'' \<mapsto> ''p2'', ''s3'' \<mapsto> ''p3''],
     emitted = e3 \<rparr>"
    by blast
  let ?w4 = "handleSetPlayerName ''Ana'' ''s1'' ?w3"
  have "\<exists>es. ?w4 =
   \<lparr> rooms = [''ABC123'' \<mapsto>
       \<lparr> code = ''ABC123'',
         players =
          [(''p1'', \<lparr> idP = ''p1'', socketId = ''s1'', name = ''Ana'', isReady = False, isHost = True, score = 0, currentHeight = None, isConnected = True \<rparr>),
           (''p2'', \<lparr> idP = ''p2'', socketId = ''s2'', name = [], isReady = False, isHost = False, score = 0, currentHeight = None, isConnected = True \<rparr>),
           (''p3'', \<lparr> idP = ''p3'', socketId = ''s3'', name = [], isReady = False, isHost = False, score = 0, currentHeight = None, isConnected = True \<rparr>)],
         state = Lobby, currentRound = 0, maxRounds = 10, selectionTimer = None,
         revealTimer = None, selectionDuration = 15, revealDuration = 5,
         currentWallHole = None, restartConsents = [] \<rparr>],
     playerRoomMap = [''p1'' \<mapsto> ''ABC123'', ''p2'' \<mapsto> ''ABC123'', ''p3'' \<mapsto> ''ABC123''],
     socketPlayerMap = [''s1'' \<mapsto> ''p1'', ''s2'' \<mapsto> ''p2'', ''s3'' \<mapsto> ''p3''],
     emitted = es \<rparr>"
    unfolding w3
    by (simp add: handleSetPlayerName_def lookupId_def getRoomByPlayerId_def roomError_def storeRoom_def
        emit_def emitPlayerListUpdate_def emitToRoom_def getRoom_def Let_def)
  then obtain e4 where w4: "?w4 =
   \<lparr> rooms = [''ABC123'' \<mapsto>
       \<lparr> code = ''ABC123'',
         players =
          [(''p1'', \<lparr> idP = ''p1'', socketId = ''s1'', name = ''Ana'', isReady = False, isHost = True, score = 0, currentHeight = None, isConnected = True \<rparr>),
           (''p2'', \<lparr> idP = ''p2'', socketId = ''s2'', name = [], isReady = False, isHost = False, score = 0, currentHeight = None, isConnected = True \<rparr>),
           (''p3'', \<lparr> idP = ''p3'', socketId = ''s3'', name = [], isReady = False, isHost = False, score = 0, currentHeight = None, isConnected = True \<rparr>)],
         state = Lobby, currentRound = 0, maxRounds = 10, selectionTimer = None,
         revealTimer = None, selectionDuration = 15, revealDuration = 5,
         currentWallHole = None, restartConsents = [] \<rparr>],
     playerRoomMap = [''p1'' \<mapsto> ''ABC123'', ''p2'' \<mapsto> ''ABC123'', ''p3'' \<mapsto> ''ABC123''],
     socketPlayerMap = [''s1'' \<mapsto> ''p1'', ''s2'' \<mapsto> ''p2'', ''s3'' \<mapsto> ''p3''],
     emitted = e4 \<rparr>"
    by blast
  let ?w5 = "handleSetPlayerName ''Ben'' ''s2'' ?w4"
  have "\<exists>es. ?w5 =
   \<lparr> rooms = [''ABC123'' \<mapsto>
       \<lparr> code = ''ABC123'',
         players =
          [(''p1'', \<lparr> idP = ''p1'', socketId = ''s1'', name = ''Ana'', isReady = False, isHost = True, score = 0, currentHeight = None, isConnected = True \<rparr>),
           (''p2'', \<lparr> idP = ''p2'', socketId = ''s2'', name = ''Ben'', isReady = False, isHost = False, score = 0, currentHeight = None, isConnected = True \<rparr>),
           (''p3'', \<lparr> idP = ''p3'', socketId = ''s3'', name = [], isReady = False, isHost = False, score = 0, currentHeight = None, isConnected = True \<rparr>)],
         state = Lobby, currentRound = 0, maxRounds = 10, selectionTimer = None,
         revealTimer = None, selectionDuration = 15, revealDuration = 5,
         currentWallHole = None, restartConsents = [] \<rparr>],
     playerRoomMap = [''p1'' \<mapsto> ''ABC123'', ''p2'' \<mapsto> ''ABC123'', ''p3'' \<mapsto> ''ABC123''],
     socketPlayerMap = [''s1'' \<mapsto> ''p1'', ''s2'' \<mapsto> ''p2'', ''s3'' \<mapsto> ''p3''],
     emitted = es \<rparr>"
    unfolding w4
    by (simp add: handleSetPlayerName_def lookupId_def getRoomByPlayerId_def roomError_def storeRoom_def
        emit_def emitPlayerListUpdate_def emitToRoom_def getRoom_def Let_def)
  then obtain e5 where w5: "?w5 =
   \<lparr> rooms = [''ABC123'' \<mapsto>
       \<lparr> code = ''ABC123'',
         players =
          [(''p1'', \<lparr> idP = ''p1'', socketId = ''s1'', name = ''Ana'', isReady = False, isHost = True, score = 0, currentHeight = None, isConnected = True \<rparr>),
           (''p2'', \<lparr> idP = ''p2'', socketId = ''s2'', name = ''Ben'', isReady = False, isHost = False, score = 0, currentHeight = None, isConnected = True \<rparr>),
           (''p3'', \<lparr> idP = ''p3'', socketId = ''s3'', name = [], isReady = False, isHost = False, score = 0, currentHeight = None, isConnected = True \<rparr>)],
         state = Lobby, currentRound = 0, maxRounds = 10, selectionTimer = None,
         revealTimer = None, selectionDuration = 15, revealDuration = 5,
         currentWallHole = None, restartConsents = [] \<rparr>],
     playerRoomMap = [''p1'' \<mapsto> ''ABC123'', ''p2'' \<mapsto> ''ABC123'', ''p3'' \<mapsto> ''ABC123''],
     socketPlayerMap = [''s1'' \<mapsto> ''p1'', ''s2'' \<mapsto> ''p2'', ''s3'' \<mapsto> ''p3''],
     emitted = e5 \<rparr>"
    by blast
  let ?w6 = "handleSetPlayerName ''Cleo'' ''s3'' ?w5"
  have "\<exists>es. ?w6 =
   \<lparr> rooms = [''ABC123'' \<mapsto>
       \<lparr> code = ''ABC123'',
         players =
          [(''p1'', \<lparr> idP = ''p1'', socketId = ''s1'', name = ''Ana'', isReady = False, isHost = True, score = 0, currentHeight = None, isConnected = True \<rparr>),
           (''p2'', \<lparr> idP = ''p2'', socketId = ''s2'', name = ''Ben'', isReady = False, isHost = False, score = 0, currentHeight = None, isConnected = True \<rparr>),
           (''p3'', \<lparr> idP = ''p3'', socketId = ''s3'', name = ''Cleo'', isReady = False, isHost = False, score = 0, currentHeight = None, isConnected = True \<rparr>)],
         state = Lobby, currentRound = 0, maxRounds = 10, selectionTimer = None,
         revealTimer = None, selectionDuration = 15, revealDuration = 5,
         currentWallHole = None, restartConsents = [] \<rparr>],
     playerRoomMap = [''p1'' \<mapsto> ''ABC123'', ''p2'' \<mapsto> ''ABC123'', ''p3'' \<mapsto> ''ABC123''],
     socketPlayerMap = [''s1'' \<mapsto> ''p1'', ''s2'' \<mapsto> ''p2'', ''s3'' \<mapsto> ''p3''],
     emitted = es \<rparr>"
    unfolding w5
    by (simp add: handleSetPlayerName_def lookupId_def getRoomByPlayerId_def roomError_def storeRoom_def
        emit_def emitPlayerListUpdate_def emitToRoom_def getRoom_def Let_def)
  then obtain e6 where w6: "?w6 =
   \<lparr> rooms = [''ABC123'' \<mapsto>
       \<lparr> code = ''ABC123'',
         players =
          [(''p1'', \<lparr> idP = ''p1'', socketId = ''s1'', name = ''Ana'', isReady = False, isHost = True, score = 0, currentHeight = None, isConnected = True \<rparr>),
           (''p2'', \<lparr> idP = ''p2'', socketId = ''s2'', name = ''Ben'', isReady = False, isHost = False, score = 0, currentHeight = None, isConnected = True \<rparr>),
           (''p3'', \<lparr> idP = ''p3'', socketId = ''s3'', name = ''Cleo'', isReady = False, isHost = False, score = 0, currentHeight = None, isConnected = True \<rparr>)],
         state = Lobby, currentRound = 0, maxRounds = 10, selectionTimer = None,
         revealTimer = None, selectionDuration = 15, revealDuration = 5,
         currentWallHole = None, restartConsents = [] \<rparr>],
     playerRoomMap = [''p1'' \<mapsto> ''ABC123'', ''p2'' \<mapsto> ''ABC123'', ''p3'' \<mapsto> ''ABC123''],
     socketPlayerMap = [''s1'' \<mapsto> ''p1'', ''s2'' \<mapsto> ''p2'', ''s3'' \<mapsto> ''p3''],
     emitted = e6 \<rparr>"
    by blast
  let ?w7 = "handlePlayerReady ''s1'' ?w6"
  have "\<exists>es. ?w7 =
   \<lparr> rooms = [''ABC123'' \<mapsto>
       \<lparr> code = ''ABC123'',
         players =
          [(''p1'', \<lparr> idP = ''p1'', socketId = ''s1'', name = ''Ana'', isReady = True, isHost = True, score = 0, currentHeight = None, isConnected = True \<rparr>),
           (''p2'', \<lparr> idP = ''p2'', socketId = ''s2'', name = ''Ben'', isReady = False, isHost = False, score = 0, currentHeight = None, isConnected = True \<rparr>),
           (''p3'', \<lparr> idP = ''p3'', socketId = ''s3'', name = ''Cleo'', isReady = False, isHost = False, score = 0, currentHeight = None, isConnected = True \<rparr>)],
         state = WaitingReady, currentRound = 0, maxRounds = 10, selectionTimer = None,
         revealTimer = None, selectionDuration = 15, revealDuration = 5,
         currentWallHole = None, restartConsents = [] \<rparr>],
     playerRoomMap = [''p1'' \<mapsto> ''ABC123'', ''p2'' \<mapsto> ''ABC123'', ''p3'' \<mapsto> ''ABC123''],
     socketPlayerMap = [''s1'' \<mapsto> ''p1'', ''s2'' \<mapsto> ''p2'', ''s3'' \<mapsto> ''p3''],
     emitted = es \<rparr>"
    unfolding w6
    by (simp add: handlePlayerReady_def lookupId_def getRoomByPlayerId_def trim_def isWhiteSpace_def
        checkAllPlayersReady_def startGame_def startRound_def forEachPlayer_def
        emitPlayerListUpdate_def emitRoundStarted_def emitToRoom_def storeRoom_def emit_def
        getRoom_def roomError_def Let_def)
  then obtain e7 where w7: "?w7 =
   \<lparr> rooms = [''ABC123'' \<mapsto>
       \<lparr> code = ''ABC123'',
         players =
          [(''p1'', \<lparr> idP = ''p1'', socketId = ''s1'', name = ''Ana'', isReady = True, isHost = True, score = 0, currentHeight = None, isConnected = True \<rparr>),
           (''p2'', \<lparr> idP = ''p2'', socketId = ''s2'', name = ''Ben'', isReady = False, isHost = False, score = 0, currentHeight = None, isConnected = True \<rparr>),
           (''p3'', \<lparr> idP = ''p3'', socketId = ''s3'', name = ''Cleo'', isReady = False, isHost = False, score = 0, currentHeight = None, isConnected = True \<rparr>)],
         state = WaitingReady, currentRound = 0, maxRounds = 10, selectionTimer = None,
         revealTimer = None, selectionDuration = 15, revealDuration = 5,
         currentWallHole = None, restartConsents = [] \<rparr>],
     playerRoomMap = [''p1'' \<mapsto> ''ABC123'', ''p2'' \<mapsto> ''ABC123'', ''p3'' \<mapsto> ''ABC123''],
     socketPlayerMap = [''s1'' \<mapsto> ''p1'', ''s2'' \<mapsto> ''p2'', ''s3'' \<mapsto> ''p3''],
     emitted = e7 \<rparr>"
    by blast
  let ?w8 = "handlePlayerReady ''s2'' ?w7"
  have "\<exists>es. ?w8 =
   \<lparr> rooms = [''ABC123'' \<mapsto>
       \<lparr> code = ''ABC123'',
         players =
          [(''p1'', \<lparr> idP = ''p1'', socketId = ''s1'', name = ''Ana'', isReady = True, isHost = True, score = 0, currentHeight = None, isConnected = True \<rparr>),
           (''p2'', \<lparr> idP = ''p2'', socketId = ''s2'', name = ''Ben'', isReady = True, isHost = False, score = 0, currentHeight = None, isConnected = True \<rparr>),
           (''p3'', \<lparr> idP = ''p3'', socketId = ''s3'', name = ''Cleo'', isReady = False, isHost = False, score = 0, currentHeight = None, isConnected = True \<rparr>)],
         state = WaitingReady, currentRound = 0, maxRounds = 10, selectionTimer = None,
         revealTimer = None, selectionDuration = 15, revealDuration = 5,
         currentWallHole = None, restartConsents = [] \<rparr>],
     playerRoomMap = [''p1'' \<mapsto> ''ABC123'', ''p2'' \<mapsto> ''ABC123'', ''p3'' \<mapsto> ''ABC123''],
     socketPlayerMap = [''s1'' \<mapsto> ''p1'', ''s2'' \<mapsto> ''p2'', ''s3'' \<mapsto> ''p3''],
     emitted = es \<rparr>"
    unfolding w7
    by (simp add: handlePlayerReady_def lookupId_def getRoomByPlayerId_def trim_def isWhiteSpace_def
        checkAllPlayersReady_def startGame_def startRound_def forEachPlayer_def
        emitPlayerListUpdate_def emitRoundStarted_def emitToRoom_def storeRoom_def emit_def
        getRoom_def roomError_def Let_def)
  then obtain e8 where w8: "?w8 =
   \<lparr> rooms = [''ABC123'' \<mapsto>
       \<lparr> code = ''ABC123'',
         players =
          [(''p1'', \<lparr> idP = ''p1'', socketId = ''s1'', name = ''Ana'', isReady = True, isHost = True, score = 0, currentHeight = None, isConnected = True \<rparr>),
           (''p2'', \<lparr> idP = ''p2'', socketId = ''s2'', name = ''Ben'', isReady = True, isHost = False, score = 0, currentHeight = None, isConnected = True \<rparr>),
           (''p3'', \<lparr> idP = ''p3'', socketId = ''s3'', name = ''Cleo'', isReady = False, isHost = False, score = 0, currentHeight = None, isConnected = True \<rparr>)],
         state = WaitingReady, currentRound = 0, maxRounds = 10, selectionTimer = None,
         revealTimer = None, selectionDuration = 15, revealDuration = 5,
         currentWallHole = None, restartConsents = [] \<rparr>],
     playerRoomMap = [''p1'' \<mapsto> ''ABC123'', ''p2'' \<mapsto> ''ABC123'', ''p3'' \<mapsto> ''ABC123''],
     socketPlayerMap = [''s1'' \<mapsto> ''p1'', ''s2'' \<mapsto> ''p2'', ''s3'' \<mapsto> ''p3''],
     emitted = e8 \<rparr>"
    by blast
  let ?w9 = "handlePlayerReady ''s3'' ?w8"
  have "\<exists>es. ?w9 =
   \<lparr> rooms = [''ABC123'' \<mapsto>
       \<lparr> code = ''ABC123'',
         players =
          [(''p1'', \<lparr> idP = ''p1'', socketId = ''s1'', name = ''Ana'', isReady = True, isHost = True, score = 0, currentHeight = None, isConnected = True \<rparr>),
           (''p2'', \<lparr> idP = ''p2'', socketId = ''s2'', name = ''Ben'', isReady = True, isHost = False, score = 0, currentHeight = None, isConnected = True \<rparr>),
           (''p3'', \<lparr> idP = ''p3'', socketId = ''s3'', name = ''Cleo'', isReady = True, isHost = False, score = 0, currentHeight = None, isConnected = True \<rparr>)],
         state = Selection, currentRound = 1, maxRounds = 10, selectionTimer = Some (Timeout (EndSelectionPeriodCb ''ABC123'') 15000),
         revealTimer = None, selectionDuration = 15, revealDuration = 5,
         currentWallHole = None, restartConsents = [] \<rparr>],
     playerRoomMap = [''p1'' \<mapsto> ''ABC123'', ''p2'' \<mapsto> ''ABC123'', ''p3'' \<mapsto> ''ABC123''],
     socketPlayerMap = [''s1'' \<mapsto> ''p1'', ''s2'' \<mapsto> ''p2'', ''s3'' \<mapsto> ''p3''],
     emitted = es \<rparr>"
    unfolding w8
    by (simp add: handlePlayerReady_def lookupId_def getRoomByPlayerId_def trim_def isWhiteSpace_def
        checkAllPlayersReady_def startGame_def startRound_def forEachPlayer_def
        emitPlayerListUpdate_def emitRoundStarted_def emitToRoom_def storeRoom_def emit_def
        getRoom_def roomError_def Let_def)
  then obtain e9 where w9: "?w9 =
   \<lparr> rooms = [''ABC123'' \<mapsto>
       \<lparr> code = ''ABC123'',
         players =
          [(''p1'', \<lparr> idP = ''p1'', socketId = ''s1'', name = ''Ana'', isReady = True, isHost = True, score = 0, currentHeight = None, isConnected = True \<rparr>),
           (''p2'', \<lparr> idP = ''p2'', socketId = ''s2'', name = ''Ben'', isReady = True, isHost = False, score = 0, currentHeight = None, isConnected = True \<rparr>),
           (''p3'', \<lparr> idP = ''p3'', socketId = ''s3'', name = ''Cleo'', isReady = True, isHost = False, score = 0, currentHeight = None, isConnected = True \<rparr>)],
         state = Selection, currentRound = 1, maxRounds = 10, selectionTimer = Some (Timeout (EndSelectionPeriodCb ''ABC123'') 15000),
         revealTimer = None, selectionDuration = 15, revealDuration = 5,
         currentWallHole = None, restartConsents = [] \<rparr>],
     playerRoomMap = [''p1'' \<mapsto> ''ABC123'', ''p2'' \<mapsto> ''ABC123'', ''p3'' \<mapsto> ''ABC123''],
     socketPlayerMap = [''s1'' \<mapsto> ''p1'', ''s2'' \<mapsto> ''p2'', ''s3'' \<mapsto> ''p3''],
     emitted = e9 \<rparr>"
    by blast
  show ?thesis
    unfolding trioStartedWorld_def using w9 by blast
qed

lemma cleoLeftWorld_value:
  "\<exists>es. cleoLeftWorld =
   \<lparr> rooms = [''ABC123'' \<mapsto>
       \<lparr> code = ''ABC123'',
         players =
          [(''p1'', \<lparr> idP = ''p1'', socketId = ''s1'', name = ''Ana'', isReady = True, isHost = True, score = 0, currentHeight = None, isConnected = True \<rparr>),
           (''p2'', \<lparr> idP = ''p2'', socketId = ''s2'', name = ''Ben'', isReady = True, isHost = False, score = 0, currentHeight = None, isConnected = True \<rparr>),
           (''p3'', \<lparr> idP = ''p3'', socketId = ''s3'', name = ''Cleo'', isReady = True, isHost = False, score = 0, currentHeight = None, isConnected = False \<rparr>)],
         state = Selection, currentRound = 1, maxRounds = 10, selectionTimer = Some (Timeout (EndSelectionPeriodCb ''ABC123'') 15000),
         revealTimer = None, selectionDuration = 15, revealDuration = 5,
         currentWallHole = None, restartConsents = [] \<rparr>],
     playerRoomMap = [''p1'' \<mapsto> ''ABC123'', ''p2'' \<mapsto> ''ABC123'', ''p3'' \<mapsto> ''ABC123''],
     socketPlayerMap = ([''s1'' \<mapsto> ''p1'', ''s2'' \<mapsto> ''p2'', ''s3'' \<mapsto> ''p3''])(''s3'' := None),
     emitted = es \<rparr>"
proof -
  from trioStartedWorld_value obtain e where w: "trioStartedWorld =
   \<lparr> rooms = [''ABC123'' \<mapsto>
       \<lparr> code = ''ABC123'',
         players =
          [(''p1'', \<lparr> idP = ''p1'', socketId = ''s1'', name = ''Ana'', isReady = True, isHost = True, score = 0, currentHeight = None, isConnected = True \<rparr>),
           (''p2'', \<lparr> idP = ''p2'', socketId = ''s2'', name = ''Ben'', isReady = True, isHost = False, score = 0, currentHeight = None, isConnected = True \<rparr>),
           (''p3'', \<lparr> idP = ''p3'', socketId = ''s3'', name = ''Cleo'', isReady = True, isHost = False, score = 0, currentHeight = None, isConnected = True \<rparr>)],
         state = Selection, currentRound = 1, maxRounds = 10, selectionTimer = Some (Timeout (EndSelectionPeriodCb ''ABC123'') 15000),
         revealTimer = None, selectionDuration = 15, revealDuration = 5,
         currentWallHole = None, restartConsents = [] \<rparr>],
     playerRoomMap = [''p1'' \<mapsto> ''ABC123'', ''p2'' \<mapsto> ''ABC123'', ''p3'' \<mapsto> ''ABC123''],
     socketPlayerMap = [''s1'' \<mapsto> ''p1'', ''s2'' \<mapsto> ''p2'', ''s3'' \<mapsto> ''p3''],
     emitted = e \<rparr>"
    by blast
  show ?thesis
    unfolding cleoLeftWorld_def w
    by (simp add: handleDisconnect_def lookupId_def getRoomByPlayerId_def promoteFirst_def storeRoom_def
        deleteRoom_def emitToRoom_def emit_def emitPlayerListUpdate_def getRoom_def
        forgetSocket_def Let_def)
qed

lemma cleoScoredWorld_value:
  "\<exists>es. cleoScoredWorld =
   \<lparr> rooms = [''ABC123'' \<mapsto>
       \<lparr> code = ''ABC123'',
         players =
          [(''p1'', \<lparr> idP = ''p1'', socketId = ''s1'', name = ''Ana'', isReady = True, isHost = True, score = - 5, currentHeight = Some 5, isConnected = True \<rparr>),
           (''p2'', \<lparr> idP = ''p2'', socketId = ''s2'', name = ''Ben'', isReady = True, isHost = False, score = - 5, currentHeight = Some 5, isConnected = True \<rparr>),
           (''p3'', \<lparr> idP = ''p3'', socketId = ''s3'', name = ''Cleo'', isReady = True, isHost = False, score = - 5, currentHeight = None, isConnected = False \<rparr>)],
         state = Revealing, currentRound = 1, maxRounds = 10, selectionTimer = None,
         revealTimer = Some (Timeout (EndRoundCb ''ABC123'') 5000), selectionDuration = 15, revealDuration = 5,
         currentWallHole = Some 7, restartConsents = [] \<rparr>],
     playerRoomMap = [''p1'' \<mapsto> ''ABC123'', ''p2'' \<mapsto> ''ABC123'', ''p3'' \<mapsto> ''ABC123''],
     socketPlayerMap = ([''s1'' \<mapsto> ''p1'', ''s2'' \<mapsto> ''p2'', ''s3'' \<mapsto> ''p3''])(''s3'' := None),
     emitted = es \<rparr>"
proof -
  from cleoLeftWorld_value obtain e where w: "cleoLeftWorld =
   \<lparr> rooms = [''ABC123'' \<mapsto>
       \<lparr> code = ''ABC123'',
         players =
          [(''p1'', \<lparr> idP = ''p1'', socketId = ''s1'', name = ''Ana'', isReady = True, isHost = True, score = 0, currentHeight = None, isConnected = True \<rparr>),
           (''p2'', \<lparr> idP = ''p2'', socketId = ''s2'', name = ''Ben'', isReady = True, isHost = False, score = 0, currentHeight = None, isConnected = True \<rparr>),
           (''p3'', \<lparr> idP = ''p3'', socketId = ''s3'', name = ''Cleo'', isReady = True, isHost = False, score = 0, currentHeight = None, isConnected = False \<rparr>)],
         state = Selection, currentRound = 1, maxRounds = 10, selectionTimer = Some (Timeout (EndSelectionPeriodCb ''ABC123'') 15000),
         revealTimer = None, selectionDuration = 15, revealDuration = 5,
         currentWallHole = None, restartConsents = [] \<rparr>],
     playerRoomMap = [''p1'' \<mapsto> ''ABC123'', ''p2'' \<mapsto> ''ABC123'', ''p3'' \<mapsto> ''ABC123''],
     socketPlayerMap = ([''s1'' \<mapsto> ''p1'', ''s2'' \<mapsto> ''p2'', ''s3'' \<mapsto> ''p3''])(''s3'' := None),
     emitted = e \<rparr>"
    by blast
  show ?thesis
    unfolding cleoScoredWorld_def w
    by (simp add: endSelectionPeriod_def Let_def getRoom_def storeRoom_def calculateResults_def
        emitSelectionLocked_def emitWallRevealed_def emitToRoom_def emit_def forEachPlayer_def
        addPoints_def assignDefault_def selectedHeightOf_def defaultHeight_def
        calculatePoints_def defaultConfig_def)
qed


lemma cleoLeftWorld_parts:
  "rooms cleoLeftWorld ''ABC123'' = Some
       \<lparr> code = ''ABC123'',
         players =
          [(''p1'', \<lparr> idP = ''p1'', socketId = ''s1'', name = ''Ana'', isReady = True, isHost = True, score = 0, currentHeight = None, isConnected = True \<rparr>),
           (''p2'', \<lparr> idP = ''p2'', socketId = ''s2'', name = ''Ben'', isReady = True, isHost = False, score = 0, currentHeight = None, isConnected = True \<rparr>),
           (''p3'', \<lparr> idP = ''p3'', socketId = ''s3'', name = ''Cleo'', isReady = True, isHost = False, score = 0, currentHeight = None, isConnected = False \<rparr>)],
         state = Selection, currentRound = 1, maxRounds = 10, selectionTimer = Some (Timeout (EndSelectionPeriodCb ''ABC123'') 15000),
         revealTimer = None, selectionDuration = 15, revealDuration = 5,
         currentWallHole = None, restartConsents = [] \<rparr>
   \<and> playerRoomMap cleoLeftWorld = [''p1'' \<mapsto> ''ABC123'', ''p2'' \<mapsto> ''ABC123'', ''p3'' \<mapsto> ''ABC123'']
   \<and> socketPlayerMap cleoLeftWorld = [''s1'' \<mapsto> ''p1'', ''s2'' \<mapsto> ''p2'']"
proof -
  from cleoLeftWorld_value obtain es where w: "cleoLeftWorld =
   \<lparr> rooms = [''ABC123'' \<mapsto>
       \<lparr> code = ''ABC123'',
         players =
          [(''p1'', \<lparr> idP = ''p1'', socketId = ''s1'', name = ''Ana'', isReady = True, isHost = True, score = 0, currentHeight = None, isConnected = True \<rparr>),
           (''p2'', \<lparr> idP = ''p2'', socketId = ''s2'', name = ''Ben'', isReady = True, isHost = False, score = 0, currentHeight = None, isConnected = True \<rparr>),
           (''p3'', \<lparr> idP = ''p3'', socketId = ''s3'', name = ''Cleo'', isReady = True, isHost = False, score = 0, currentHeight = None, isConnected = False \<rparr>)],
         state = Selection, currentRound = 1, maxRounds = 10, selectionTimer = Some (Timeout (EndSelectionPeriodCb ''ABC123'') 15000),
         revealTimer = None, selectionDuration = 15, revealDuration = 5,
         currentWallHole = None, restartConsents = [] \<rparr>],
     playerRoomMap = [''p1'' \<mapsto> ''ABC123'', ''p2'' \<mapsto> ''ABC123'', ''p3'' \<mapsto> ''ABC123''],
     socketPlayerMap = [''s1'' \<mapsto> ''p1'', ''s2'' \<mapsto> ''p2''],
     emitted = es \<rparr>"
    by auto
  show ?thesis
    unfolding w by simp
qed

lemma cleoScoredWorld_parts:
  "rooms cleoScoredWorld ''ABC123'' = Some
       \<lparr> code = ''ABC123'',
         players =
          [(''p1'', \<lparr> idP = ''p1'', socketId = ''s1'', name = ''Ana'', isReady = True, isHost = True, score = - 5, currentHeight = Some 5, isConnected = True \<rparr>),
           (''p2'', \<lparr> idP = ''p2'', socketId = ''s2'', name = ''Ben'', isReady = True, isHost = False, score = - 5, currentHeight = Some 5, isConnected = True \<rparr>),
           (''p3'', \<lparr> idP = ''p3'', socketId = ''s3'', name = ''Cleo'', isReady = True, isHost = False, score = - 5, currentHeight = None, isConnected = False \<rparr>)],
         state = Revealing, currentRound = 1, maxRounds = 10, selectionTimer = None,
         revealTimer = Some (Timeout (EndRoundCb ''ABC123'') 5000), selectionDuration = 15, revealDuration = 5,
         currentWallHole = Some 7, restartConsents = [] \<rparr>
   \<and> playerRoomMap cleoScoredWorld = [''p1'' \<mapsto> ''ABC123'', ''p2'' \<mapsto> ''ABC123'', ''p3'' \<mapsto> ''ABC123'']
   \<and> socketPlayerMap cleoScoredWorld = [''s1'' \<mapsto> ''p1'', ''s2'' \<mapsto> ''p2'']"
proof -
  from cleoScoredWorld_value obtain es where w: "cleoScoredWorld =
   \<lparr> rooms = [''ABC123'' \<mapsto>
       \<lparr> code = ''ABC123'',
         players =
          [(''p1'', \<lparr> idP = ''p1'', socketId = ''s1'', name = ''Ana'', isReady = True, isHost = True, score = - 5, currentHeight = Some 5, isConnected = True \<rparr>),
           (''p2'', \<lparr> idP = ''p2'', socketId = ''s2'', name = ''Ben'', isReady = True, isHost = False, score = - 5, currentHeight = Some 5, isConnected = True \<rparr>),
           (''p3'', \<lparr> idP = ''p3'', socketId = ''s3'', name = ''Cleo'', isReady = True, isHost = False, score = - 5, currentHeight = None, isConnected = False \<rparr>)],
         state = Revealing, currentRound = 1, maxRounds = 10, selectionTimer = None,
         revealTimer = Some (Timeout (EndRoundCb ''ABC123'') 5000), selectionDuration = 15, revealDuration = 5,
         currentWallHole = Some 7, restartConsents = [] \<rparr>],
     playerRoomMap = [''p1'' \<mapsto> ''ABC123'', ''p2'' \<mapsto> ''ABC123'', ''p3'' \<mapsto> ''ABC123''],
     socketPlayerMap = [''s1'' \<mapsto> ''p1'', ''s2'' \<mapsto> ''p2''],
     emitted = es \<rparr>"
    by auto
  show ?thesis
    unfolding w by simp
qed

lemma trioStartedWorld_reachable: "reachable defaultConfig trioStartedWorld"
  unfolding trioStartedWorld_def
  by (intro reachable.ready reachable.set_name reachable.join
      reachable.create [OF reachable.start createdWorld_created])

lemma cleoLeftWorld_reachable: "reachable defaultConfig cleoLeftWorld"
  unfolding cleoLeftWorld_def
  by (intro reachable.disconnect trioStartedWorld_reachable)

lemma cleoScoredWorld_reachable: "reachable defaultConfig cleoScoredWorld"
proof -
  from cleoLeftWorld_parts obtain r where "rooms cleoLeftWorld ''ABC123'' = Some r"
    and "selectionTimer r = Some (Timeout (EndSelectionPeriodCb ''ABC123'') 15000)"
    by simp
  then show ?thesis
    unfolding cleoScoredWorld_def
    by (intro reachable.selection_deadline [OF cleoLeftWorld_reachable]) simp_all
qed

lemma guard_has_no_effect_on_scoring:
  "score (addPoints cfg hole (assignDefault p)) = score (addPoints cfg hole p)
   \<and> pointsEarned (roundResultOf cfg hole (addPoints cfg hole (assignDefault p)))
       = pointsEarned (roundResultOf cfg hole (addPoints cfg hole p))
   \<and> selectedHeight (roundResultOf cfg hole (addPoints cfg hole (assignDefault p)))
       = selectedHeight (roundResultOf cfg hole (addPoints cfg hole p))"
  by (simp add: addPoints_assignDefault roundResultOf_def)
    (simp add: addPoints_def selectedHeightOf_def)


text \<open>
  Claim C2. The claim fails on the code. Ana, Ben and Cleo start a game; Cleo disconnects
  during the first selection phase without a guess, with score 0; the selection deadline
  elapses with target 7. No default guess is stored for Cleo, as the guard on
  \<open>isConnected\<close> in \<open>endSelectionPeriod\<close> intends, but \<open>calculateResults\<close> falls back to
  the default 5 for her all the same: her round result shows guess 5 and -5 points, and
  her cumulative score goes from 0 to -5.
\<close>

theorem disconnected_player_scored_on_default:
  "reachable defaultConfig cleoLeftWorld
   \<and> (\<exists>r c. rooms cleoLeftWorld ''ABC123'' = Some r \<and> state r = Selection
          \<and> map_of (players r) ''p3'' = Some c
          \<and> \<not> isConnected c \<and> currentHeight c = None \<and> score c = 0)
   \<and> cleoScoredWorld = endSelectionPeriod defaultConfig ''ABC123'' 7 cleoLeftWorld
   \<and> reachable defaultConfig cleoScoredWorld
   \<and> (\<exists>r c. rooms cleoScoredWorld ''ABC123'' = Some r \<and> state r = Revealing
          \<and> map_of (players r) ''p3'' = Some c
          \<and> \<not> isConnected c \<and> currentHeight c = None \<and> score c = - 5)
   \<and> (\<exists>es rs. emitted cleoScoredWorld
                  = es @ [ToRoom ''ABC123'' ''wall-revealed'' (WallRevealed 7 rs)]
          \<and> map (\<lambda>x. (rr_playerId x, selectedHeight x, pointsEarned x, totalScore x)) rs
              = [(''p1'', 5, - 5, - 5), (''p2'', 5, - 5, - 5), (''p3'', 5, - 5, - 5)])"
proof -
  have before: "\<exists>r c. rooms cleoLeftWorld ''ABC123'' = Some r \<and> state r = Selection
          \<and> map_of (players r) ''p3'' = Some c
          \<and> \<not> isConnected c \<and> currentHeight c = None \<and> score c = 0"
    using cleoLeftWorld_parts by simp
  have after: "\<exists>r c. rooms cleoScoredWorld ''ABC123'' = Some r \<and> state r = Revealing
          \<and> map_of (players r) ''p3'' = Some c
          \<and> \<not> isConnected c \<and> currentHeight c = None \<and> score c = - 5"
    using cleoScoredWorld_parts by simp
  from cleoLeftWorld_parts obtain r where g: "getRoom cleoLeftWorld ''ABC123'' = Some r"
    and st: "state r = Selection"
    and ps: "map (\<lambda>(k, p). (idP p, isConnected p, currentHeight p, score p)) (players r)
               = [(''p1'', True, None, 0), (''p2'', True, None, 0), (''p3'', False, None, 0)]"
    by (simp add: getRoom_def)
  let ?rs = "map (\<lambda>(k, p). roundResultOf defaultConfig 7 p)
               (forEachPlayer (\<lambda>p. addPoints defaultConfig 7 (assignDefault p)) (players r))"
  have em: "emitted cleoScoredWorld
      = (emitted cleoLeftWorld @ [ToRoom ''ABC123'' ''selection-locked'' NoData])
        @ [ToRoom ''ABC123'' ''wall-revealed'' (WallRevealed 7 ?rs)]"
    by (simp add: cleoScoredWorld_def endSelectionPeriod_selection [OF g st])
  have rs: "map (\<lambda>x. (rr_playerId x, selectedHeight x, pointsEarned x, totalScore x)) ?rs
      = map (\<lambda>(i, c, h, s).
               (i, (case h of None \<Rightarrow> defaultHeight | Some v \<Rightarrow> v),
                calculatePoints defaultConfig (case h of None \<Rightarrow> defaultHeight | Some v \<Rightarrow> v) 7,
                s + calculatePoints defaultConfig (case h of None \<Rightarrow> defaultHeight | Some v \<Rightarrow> v) 7))
          (map (\<lambda>(k, p). (idP p, isConnected p, currentHeight p, score p)) (players r))"
    by (simp add: forEachPlayer_def roundResultOf_def addPoints_assignDefault
        selectedHeightOf_def defaultHeight_def case_prod_unfold comp_def)
  have rs': "map (\<lambda>x. (rr_playerId x, selectedHeight x, pointsEarned x, totalScore x)) ?rs
      = [(''p1'', 5, - 5, - 5), (''p2'', 5, - 5, - 5), (''p3'', 5, - 5, - 5)]"
    unfolding rs ps by (simp add: calculatePoints_def defaultConfig_def defaultHeight_def)
  have results: "\<exists>es rs. emitted cleoScoredWorld
                  = es @ [ToRoom ''ABC123'' ''wall-revealed'' (WallRevealed 7 rs)]
          \<and> map (\<lambda>x. (rr_playerId x, selectedHeight x, pointsEarned x, totalScore x)) rs
              = [(''p1'', 5, - 5, - 5), (''p2'', 5, - 5, - 5), (''p3'', 5, - 5, - 5)]"
    apply (rule exI [where x = "emitted cleoLeftWorld @ [ToRoom ''ABC123'' ''selection-locked'' NoData]"])
    apply (rule exI [where x = "?rs"])
    apply (rule conjI [OF em rs'])
    done
  show ?thesis
    using cleoLeftWorld_reachable cleoScoredWorld_reachable before after results
    by (simp add: cleoScoredWorld_def)
qed


section \<open>A disconnect that completes the consents\<close>










lemma handleDisconnect_maps_kept:
  assumes "socketPlayerMap w client = Some pid" and "pid \<noteq> []"
    and "playerRoomMap w pid = Some roomCode" and "roomCode \<noteq> []"
    and "rooms w roomCode = Some room" and "code room = roomCode"
    and "map_of (players room) pid = Some player"
    and "state room \<noteq> Lobby" and "state room \<noteq> WaitingReady"
    and "\<not> list_all (\<lambda>(k, p). \<not> isConnected p)
           (AList.map_entry pid (\<lambda>p. p\<lparr>isConnected := False\<rparr>) (players room))"
  shows "playerRoomMap (handleDisconnect client w) = playerRoomMap w
       \<and> socketPlayerMap (handleDisconnect client w) = (socketPlayerMap w)(client := None)"
  using assms
  by (simp add: handleDisconnect_def lookupId_Some getRoomByPlayerId_Some Let_def
      forgetSocket_def storeRoom_def emitToRoom_def emit_def emitPlayerListUpdate_def
      getRoom_def)





end
